theory Spec2Isabelle
  imports Complex_Main
begin

section \<open>Hybrid video orchestrator: EDL builder, effect math, clip rendering, fan-out\<close>

text \<open>
  JavaScript numbers are modelled as exact reals: rounding of doubles, NaN and the
  infinities are outside the model. An optional property of an object is an
  \<open>option\<close> (\<open>None\<close> is \<open>undefined\<close>). The operator \<open>a || b\<close> yields \<open>a\<close>
  when \<open>a\<close> is truthy and \<open>b\<close> otherwise; a number is truthy when it is not \<open>0\<close>, a
  string when it is not empty, an object always.
\<close>

subsection \<open>Truthiness and the operator \<open>||\<close>\<close>

definition num_or :: "real option \<Rightarrow> real \<Rightarrow> real" where
  "num_or a b = (case a of Some x \<Rightarrow> (if x \<noteq> 0 then x else b) | None \<Rightarrow> b)"

definition str_or :: "string option \<Rightarrow> string \<Rightarrow> string" where
  "str_or a b = (case a of Some s \<Rightarrow> (if s \<noteq> [] then s else b) | None \<Rightarrow> b)"

definition truthy_str :: "string option \<Rightarrow> bool" where
  "truthy_str a = (case a of Some s \<Rightarrow> s \<noteq> [] | None \<Rightarrow> False)"

subsection \<open>Data model (controller.js, entrypoint.js)\<close>

text \<open>The \<open>kenBurns\<close> object of a scene (\<open>scene.effects?.kenBurns\<close>).\<close>

record kenBurns =
  kb_startZoom :: "real option"
  kb_endZoom :: "real option"
  kb_startX :: "real option"
  kb_startY :: "real option"
  kb_endX :: "real option"
  kb_endY :: "real option"

record scene =
  scene_id :: string
  scene_duration :: real
  scene_narration :: string
  scene_visualDescription :: string
  scene_visualType :: string
  scene_searchQuery :: "string option"
  scene_imagePrompt :: "string option"
  scene_kenBurns :: "kenBurns option"

record script =
  script_title :: string
  script_description :: string
  script_scenes :: "scene list"

record asset =
  asset_type :: string
  asset_source :: string
  asset_duration :: "real option"
  asset_prompt :: "string option"
  asset_searchQuery :: "string option"

type_synonym assets = "string \<rightharpoonup> asset"

text \<open>The \<open>params\<close> object of a ken-burns effect.\<close>

record kb_params =
  p_startZoom :: "real option"
  p_endZoom :: "real option"
  p_startX :: "real option"
  p_startY :: "real option"
  p_endX :: "real option"
  p_endY :: "real option"
  p_easing :: "string option"

record effect =
  eff_type :: string
  eff_params :: kb_params

record transition =
  tr_type :: string
  tr_duration :: "real option"

record transitions =
  tr_in :: "transition option"
  tr_out :: "transition option"

record clip =
  clip_id :: string
  clip_assetId :: string
  clip_startTime :: real
  clip_duration :: real
  clip_effects :: "effect list option"
  clip_transitions :: "transitions option"
  clip_inPoint :: "real option"

record track =
  track_id :: string
  track_type :: string
  track_name :: string
  track_clips :: "clip list"

record timeline =
  tl_duration :: real
  tl_tracks :: "track list"

record outputSettings =
  os_width :: "real option"
  os_height :: "real option"
  os_fps :: "real option"
  os_format :: string
  os_codec :: string
  os_bitrate :: string
  os_audioCodec :: string
  os_audioBitrate :: string

record metadata =
  md_title :: string
  md_description :: string
  md_author :: string
  md_createdAt :: string
  md_outputSettings :: outputSettings

record renderSettings =
  rs_useGpu :: bool
  rs_preset :: string
  rs_crf :: real

record edl =
  edl_version :: string
  edl_metadata :: metadata
  edl_assets :: assets
  edl_timeline :: timeline
  edl_renderSettings :: renderSettings

text \<open>The \<open>options\<close> argument of \<open>buildEDL\<close> (every property optional).\<close>

record options =
  opt_width :: "real option"
  opt_height :: "real option"
  opt_fps :: "real option"
  opt_format :: "string option"
  opt_codec :: "string option"
  opt_bitrate :: "string option"
  opt_useGpu :: "bool option"
  opt_preset :: "string option"
  opt_crf :: "real option"

subsection \<open>\<open>buildEDL\<close> (controller.js)\<close>

text \<open>
  The loop over \<open>script.scenes\<close> carries \<open>currentTime\<close> and the two clip arrays
  \<open>edl.timeline.tracks[0].clips\<close> and \<open>edl.timeline.tracks[1].clips\<close>.
\<close>

record build_state =
  currentTime :: real
  videoClips :: "clip list"
  audioClips :: "clip list"

definition visualAssetId :: "scene \<Rightarrow> string" where
  "visualAssetId scene = ''visual_'' @ scene_id scene"

definition audioAssetId :: "scene \<Rightarrow> string" where
  "audioAssetId scene = ''audio_'' @ scene_id scene"

text \<open>\<open>const clipDuration = audioAsset.duration || scene.duration\<close>\<close>

definition clipDuration :: "asset \<Rightarrow> scene \<Rightarrow> real" where
  "clipDuration audioAsset scene = num_or (asset_duration audioAsset) (scene_duration scene)"

definition defaultKenBurns :: kenBurns where
  "defaultKenBurns =
     \<lparr>kb_startZoom = Some 1, kb_endZoom = Some (115 / 100), kb_startX = None,
      kb_startY = None, kb_endX = None, kb_endY = None\<rparr>"

definition sceneKenBurnsEffect :: "scene \<Rightarrow> effect" where
  "sceneKenBurnsEffect scene =
     (let kb = (case scene_kenBurns scene of Some k \<Rightarrow> k | None \<Rightarrow> defaultKenBurns)
      in \<lparr>eff_type = ''ken-burns'',
          eff_params =
            \<lparr>p_startZoom = kb_startZoom kb,
             p_endZoom = kb_endZoom kb,
             p_startX = Some (num_or (kb_startX kb) 0),
             p_startY = Some (num_or (kb_startY kb) 0),
             p_endX = Some (num_or (kb_endX kb) 0),
             p_endY = Some (num_or (kb_endY kb) 0),
             p_easing = Some ''ease-in-out''\<rparr>\<rparr>)"

definition is_image_asset :: "asset \<Rightarrow> bool" where
  "is_image_asset a = (asset_type a = ''generated-image'' \<or> asset_type a = ''image'')"

definition dissolve_in :: transitions where
  "dissolve_in = \<lparr>tr_in = Some \<lparr>tr_type = ''dissolve'', tr_duration = Some (1 / 2)\<rparr>,
                   tr_out = None\<rparr>"

definition videoClip :: "asset \<Rightarrow> asset \<Rightarrow> scene \<Rightarrow> real \<Rightarrow> clip" where
  "videoClip visualAsset audioAsset scene t =
     \<lparr>clip_id = ''clip_'' @ scene_id scene,
      clip_assetId = visualAssetId scene,
      clip_startTime = t,
      clip_duration = clipDuration audioAsset scene,
      clip_effects = Some (if is_image_asset visualAsset then [sceneKenBurnsEffect scene] else []),
      clip_transitions = (if t > 0 then Some dissolve_in else None),
      clip_inPoint = None\<rparr>"

definition audioClip :: "asset \<Rightarrow> scene \<Rightarrow> real \<Rightarrow> clip" where
  "audioClip audioAsset scene t =
     \<lparr>clip_id = ''audio_clip_'' @ scene_id scene,
      clip_assetId = audioAssetId scene,
      clip_startTime = t,
      clip_duration = clipDuration audioAsset scene,
      clip_effects = None,
      clip_transitions = None,
      clip_inPoint = None\<rparr>"

text \<open>One iteration of the loop; \<open>continue\<close> leaves the state as it is.\<close>

definition loop_body :: "assets \<Rightarrow> scene \<Rightarrow> build_state \<Rightarrow> build_state" where
  "loop_body assets scene st =
     (case assets (visualAssetId scene) of
        None \<Rightarrow> st
      | Some visualAsset \<Rightarrow>
          (case assets (audioAssetId scene) of
             None \<Rightarrow> st
           | Some audioAsset \<Rightarrow>
               \<lparr>currentTime = currentTime st + clipDuration audioAsset scene,
                videoClips = videoClips st @ [videoClip visualAsset audioAsset scene (currentTime st)],
                audioClips = audioClips st @ [audioClip audioAsset scene (currentTime st)]\<rparr>))"

fun build_loop :: "assets \<Rightarrow> scene list \<Rightarrow> build_state \<Rightarrow> build_state" where
  "build_loop assets [] st = st"
| "build_loop assets (scene # rest) st = build_loop assets rest (loop_body assets scene st)"

text \<open>
  \<open>new Date().toISOString()\<close> reads the clock: the reading is the argument \<open>now\<close>.
\<close>

definition buildEDL :: "string \<Rightarrow> script \<Rightarrow> assets \<Rightarrow> options \<Rightarrow> edl" where
  "buildEDL now script assets options =
     (let st = build_loop assets (script_scenes script)
                 \<lparr>currentTime = 0, videoClips = [], audioClips = []\<rparr>
      in \<lparr>edl_version = ''1.0.0'',
          edl_metadata =
            \<lparr>md_title = script_title script,
             md_description = script_description script,
             md_author = ''Hybrid Video Orchestrator'',
             md_createdAt = now,
             md_outputSettings =
               \<lparr>os_width = Some (num_or (opt_width options) 1920),
                os_height = Some (num_or (opt_height options) 1080),
                os_fps = Some (num_or (opt_fps options) 30),
                os_format = str_or (opt_format options) ''mp4'',
                os_codec = str_or (opt_codec options) ''h264'',
                os_bitrate = str_or (opt_bitrate options) ''8M'',
                os_audioCodec = ''aac'',
                os_audioBitrate = ''192K''\<rparr>\<rparr>,
          edl_assets = assets,
          edl_timeline =
            \<lparr>tl_duration = currentTime st,
             tl_tracks =
               [\<lparr>track_id = ''video-main'', track_type = ''video'',
                 track_name = ''Main Video'', track_clips = videoClips st\<rparr>,
                \<lparr>track_id = ''audio-narration'', track_type = ''audio'',
                 track_name = ''Narration'', track_clips = audioClips st\<rparr>]\<rparr>,
          edl_renderSettings =
            \<lparr>rs_useGpu = (opt_useGpu options \<noteq> Some False),
             rs_preset = str_or (opt_preset options) ''medium'',
             rs_crf = num_or (opt_crf options) 23\<rparr>\<rparr>)"

definition video_track_clips :: "edl \<Rightarrow> clip list" where
  "video_track_clips e = track_clips (tl_tracks (edl_timeline e) ! 0)"

definition audio_track_clips :: "edl \<Rightarrow> clip list" where
  "audio_track_clips e = track_clips (tl_tracks (edl_timeline e) ! 1)"

text \<open>Derived views of the builder's input, used to state its properties.\<close>

definition has_assets :: "assets \<Rightarrow> scene \<Rightarrow> bool" where
  "has_assets A s = (A (visualAssetId s) \<noteq> None \<and> A (audioAssetId s) \<noteq> None)"

definition surviving :: "assets \<Rightarrow> scene list \<Rightarrow> scene list" where
  "surviving A ss = filter (has_assets A) ss"

definition scene_clipDuration :: "assets \<Rightarrow> scene \<Rightarrow> real" where
  "scene_clipDuration A s =
     (case A (audioAssetId s) of Some a \<Rightarrow> clipDuration a s | None \<Rightarrow> 0)"

text \<open>
  The clip duration in the specification's words: the audio asset's duration if
  present, else the scene's declared duration.
\<close>

definition spec_clipDuration :: "assets \<Rightarrow> scene \<Rightarrow> real" where
  "spec_clipDuration A s =
     (case A (audioAssetId s) of
        Some a \<Rightarrow> (case asset_duration a of Some d \<Rightarrow> d | None \<Rightarrow> scene_duration s)
      | None \<Rightarrow> 0)"

text \<open>The EDL invariant of the specification, part by part.\<close>

fun contiguous_from :: "real \<Rightarrow> clip list \<Rightarrow> bool" where
  "contiguous_from t [] = True"
| "contiguous_from t (c # cs) =
     (clip_startTime c = t \<and> contiguous_from (t + clip_duration c) cs)"

fun contiguous :: "clip list \<Rightarrow> bool" where
  "contiguous (c # d # cs) =
     (clip_startTime d = clip_startTime c + clip_duration c \<and> contiguous (d # cs))"
| "contiguous cs = True"

fun nondecreasing :: "clip list \<Rightarrow> bool" where
  "nondecreasing (c # d # cs) =
     (clip_startTime c \<le> clip_startTime d \<and> nondecreasing (d # cs))"
| "nondecreasing cs = True"

definition assets_resolve :: "edl \<Rightarrow> bool" where
  "assets_resolve e =
     list_all (\<lambda>c. edl_assets e (clip_assetId c) \<noteq> None)
       (video_track_clips e @ audio_track_clips e)"

definition duration_is_end :: "edl \<Rightarrow> bool" where
  "duration_is_end e =
     (case rev (video_track_clips e) of
        [] \<Rightarrow> True
      | c # _ \<Rightarrow> tl_duration (edl_timeline e) = clip_startTime c + clip_duration c)"

definition tracks_contiguous :: "edl \<Rightarrow> bool" where
  "tracks_contiguous e = (contiguous (video_track_clips e) \<and> contiguous (audio_track_clips e))"

definition tracks_nondecreasing :: "edl \<Rightarrow> bool" where
  "tracks_nondecreasing e =
     (nondecreasing (video_track_clips e) \<and> nondecreasing (audio_track_clips e))"

definition edl_invariant :: "edl \<Rightarrow> bool" where
  "edl_invariant e =
     (assets_resolve e \<and> duration_is_end e \<and> tracks_contiguous e \<and> tracks_nondecreasing e)"

text \<open>The \<open>in\<close> transition of a clip (\<open>clip.transitions?.in\<close>).\<close>

definition transition_in :: "clip \<Rightarrow> transition option" where
  "transition_in c = (case clip_transitions c of None \<Rightarrow> None | Some ts \<Rightarrow> tr_in ts)"

definition transition_out :: "clip \<Rightarrow> transition option" where
  "transition_out c = (case clip_transitions c of None \<Rightarrow> None | Some ts \<Rightarrow> tr_out ts)"

text \<open>
  Transition placement in the specification's words: no \<open>in\<close> transition on the
  first clip, the dissolve of half a second on every later one.
\<close>

definition spec_transition_placement :: "clip list \<Rightarrow> bool" where
  "spec_transition_placement cs =
     (case cs of
        [] \<Rightarrow> True
      | c # rest \<Rightarrow>
          transition_in c = None \<and>
          list_all (\<lambda>d. transition_in d = Some \<lparr>tr_type = ''dissolve'', tr_duration = Some (1 / 2)\<rparr>)
            rest)"

subsection \<open>\<open>generateKenBurnsFilter\<close> (entrypoint.js)\<close>

text \<open>
  The function returns the text of an ffmpeg filter. The arithmetic expressions it
  splices into that text (\<open>zoomExpr\<close>, \<open>panXExpr\<close>, \<open>panYExpr\<close>) are kept as syntax
  trees of ffmpeg's expression language, read with the usual precedence of \<open>*\<close> and
  \<open>/\<close> over \<open>+\<close>; \<open>expr_value\<close> is their value at time \<open>t\<close>. \<open>Pow e n\<close> is
  \<open>pow(e,n)\<close>. Division by zero has HOL's value \<open>0\<close>, so a clip duration of \<open>0\<close> is
  outside what \<open>expr_value\<close> says about ffmpeg.
\<close>

datatype fexpr =
    Num real
  | T
  | PI
  | Add fexpr fexpr
  | Sub fexpr fexpr
  | Mul fexpr fexpr
  | Div fexpr fexpr
  | Cos fexpr
  | Pow fexpr nat

fun expr_value :: "real \<Rightarrow> fexpr \<Rightarrow> real" where
  "expr_value t (Num x) = x"
| "expr_value t T = t"
| "expr_value t PI = pi"
| "expr_value t (Add a b) = expr_value t a + expr_value t b"
| "expr_value t (Sub a b) = expr_value t a - expr_value t b"
| "expr_value t (Mul a b) = expr_value t a * expr_value t b"
| "expr_value t (Div a b) = expr_value t a / expr_value t b"
| "expr_value t (Cos a) = cos (expr_value t a)"
| "expr_value t (Pow a n) = expr_value t a ^ n"

text \<open>
  The filter text
  \<open>scale=W:H,zoompan=z='Z':x='iw/2-(iw/zoom/2)+(PX)':y='ih/2-(ih/zoom/2)+(PY)':d=D:s=WxH:fps=F\<close>
  as a record of the values spliced into it.
\<close>

record kb_filter =
  kf_scaleWidth :: int
  kf_scaleHeight :: int
  kf_zoomExpr :: fexpr
  kf_panXExpr :: fexpr
  kf_panYExpr :: fexpr
  kf_totalFrames :: int
  kf_width :: real
  kf_height :: real
  kf_fps :: real

text \<open>A destructuring default applies when the property is \<open>undefined\<close>.\<close>

definition num_default :: "real option \<Rightarrow> real \<Rightarrow> real" where
  "num_default a d = (case a of Some x \<Rightarrow> x | None \<Rightarrow> d)"

definition str_default :: "string option \<Rightarrow> string \<Rightarrow> string" where
  "str_default a d = (case a of Some x \<Rightarrow> x | None \<Rightarrow> d)"

definition zoomExpr :: "string \<Rightarrow> real \<Rightarrow> real \<Rightarrow> real \<Rightarrow> fexpr" where
  "zoomExpr easing startZoom zoomDiff duration =
     (if easing = ''ease-in-out'' then
        Add (Num startZoom)
          (Div (Mul (Num zoomDiff) (Sub (Num 1) (Cos (Div (Mul PI T) (Num duration))))) (Num 2))
      else if easing = ''ease-in'' then
        Add (Num startZoom) (Mul (Num zoomDiff) (Pow (Div T (Num duration)) 2))
      else if easing = ''ease-out'' then
        Add (Num startZoom)
          (Mul (Num zoomDiff) (Sub (Num 1) (Pow (Sub (Num 1) (Div T (Num duration))) 2)))
      else
        Add (Num startZoom) (Div (Mul (Num zoomDiff) T) (Num duration)))"

text \<open>
  \<open>panXExpr\<close> and \<open>panYExpr\<close> are built by the same two-branch conditional, from
  \<open>startX * width / 2\<close> and \<open>panXDiff\<close>, and from \<open>startY * height / 2\<close> and \<open>panYDiff\<close>.
\<close>

definition panExpr :: "string \<Rightarrow> real \<Rightarrow> real \<Rightarrow> real \<Rightarrow> fexpr" where
  "panExpr easing start panDiff duration =
     (if easing = ''ease-in-out'' then
        Add (Num start)
          (Div (Mul (Num panDiff) (Sub (Num 1) (Cos (Div (Mul PI T) (Num duration))))) (Num 2))
      else
        Add (Num start) (Div (Mul (Num panDiff) T) (Num duration)))"

definition generateKenBurnsFilter :: "kb_params \<Rightarrow> real \<Rightarrow> outputSettings \<Rightarrow> kb_filter" where
  "generateKenBurnsFilter params duration outputSettings =
     (let startZoom = num_default (p_startZoom params) 1;
          endZoom = num_default (p_endZoom params) (12 / 10);
          startX = num_default (p_startX params) 0;
          startY = num_default (p_startY params) 0;
          endX = num_default (p_endX params) 0;
          endY = num_default (p_endY params) 0;
          easing = str_default (p_easing params) ''linear'';
          fps = num_or (os_fps outputSettings) 30;
          width = num_or (os_width outputSettings) 1920;
          height = num_or (os_height outputSettings) 1080;
          totalFrames = \<lceil>duration * fps\<rceil>;
          zoomDiff = endZoom - startZoom;
          panXDiff = (endX - startX) * width / 2;
          panYDiff = (endY - startY) * height / 2;
          maxZoom = max startZoom endZoom
      in \<lparr>kf_scaleWidth = \<lceil>width * maxZoom * (15 / 10)\<rceil>,
          kf_scaleHeight = \<lceil>height * maxZoom * (15 / 10)\<rceil>,
          kf_zoomExpr = zoomExpr easing startZoom zoomDiff duration,
          kf_panXExpr = panExpr easing (startX * width / 2) panXDiff duration,
          kf_panYExpr = panExpr easing (startY * height / 2) panYDiff duration,
          kf_totalFrames = totalFrames,
          kf_width = width,
          kf_height = height,
          kf_fps = fps\<rparr>)"

text \<open>
  The easing laws of the specification, as the progress reached at the fraction
  \<open>u = t / duration\<close> of the clip: linear, quadratic in, quadratic out, and
  \<open>(1 - cos (\<pi> u)) / 2\<close>; any other name is linear.
\<close>

definition easing_progress :: "string \<Rightarrow> real \<Rightarrow> real" where
  "easing_progress easing u =
     (if easing = ''ease-in-out'' then (1 - cos (pi * u)) / 2
      else if easing = ''ease-in'' then u ^ 2
      else if easing = ''ease-out'' then 1 - (1 - u) ^ 2
      else u)"

subsection \<open>\<open>renderClip\<close> (entrypoint.js)\<close>

text \<open>
  The filters and arguments of the ffmpeg command, with the numbers spliced into
  their text kept as numbers. \<open>ScalePadFps w h f\<close> is
  \<open>scale=w:h:force_original_aspect_ratio=decrease,pad=w:h:(ow-iw)/2:(oh-ih)/2,fps=f\<close>;
  \<open>Fade dir st d\<close> is \<open>fade=t=dir:st=st:d=d\<close>.
\<close>

datatype vfilter =
    KenBurns kb_filter
  | ScalePadFps "real option" "real option" "real option"
  | Fade string real real

datatype arg = Str string | NumStr real

record ffmpeg_cmd =
  cmd_input :: string
  cmd_loop :: bool
  cmd_inputOptions :: "arg list"
  cmd_complexFilter :: "vfilter list"
  cmd_outputOptions :: "arg list"
  cmd_output :: string

definition is_fade :: "vfilter \<Rightarrow> bool" where
  "is_fade f = (case f of Fade dir st d \<Rightarrow> True | _ \<Rightarrow> False)"

definition fade_type :: "transition option \<Rightarrow> bool" where
  "fade_type tr =
     (case tr of None \<Rightarrow> False
      | Some x \<Rightarrow> tr_type x = ''fade'' \<or> tr_type x = ''dissolve'')"

text \<open>The local array \<open>videoFilters\<close> as it stands after the two \<open>push\<close> statements.\<close>

definition videoFilters :: "clip \<Rightarrow> vfilter list" where
  "videoFilters clip =
     (let duration = clip_duration clip
      in (case transition_in clip of
            Some tr \<Rightarrow>
              (if fade_type (Some tr) then [Fade ''in'' 0 (num_or (tr_duration tr) (1 / 2))]
               else [])
          | None \<Rightarrow> []) @
         (case transition_out clip of
            Some tr \<Rightarrow>
              (if fade_type (Some tr) then
                 (let fadeDuration = num_or (tr_duration tr) (1 / 2);
                      fadeStart = duration - fadeDuration
                  in [Fade ''out'' fadeStart fadeDuration])
               else [])
          | None \<Rightarrow> []))"

definition scalePadFps :: "outputSettings \<Rightarrow> vfilter" where
  "scalePadFps outputSettings =
     ScalePadFps (os_width outputSettings) (os_height outputSettings) (os_fps outputSettings)"

text \<open>
  The command that \<open>renderClip\<close> has built when it calls \<open>cmd.run()\<close>. The source
  fills \<open>videoFilters\<close> between the asset-type branches and the output options and
  does not mention it again; whether the run resolves or rejects is ffmpeg's.
\<close>

definition renderClip ::
    "clip \<Rightarrow> asset \<Rightarrow> string \<Rightarrow> string \<Rightarrow> outputSettings \<Rightarrow> ffmpeg_cmd" where
  "renderClip clip asset assetPath outputPath outputSettings =
     (let duration = clip_duration clip;
          cmd0 = \<lparr>cmd_input = assetPath, cmd_loop = False, cmd_inputOptions = [],
                  cmd_complexFilter = [], cmd_outputOptions = [], cmd_output = []\<rparr>;
          cmd1 =
            (if asset_type asset = ''generated-image'' \<or> asset_type asset = ''image'' then
               (let c = cmd0\<lparr>cmd_loop := True, cmd_inputOptions := [Str ''-t'', NumStr duration]\<rparr>
                in case (case clip_effects clip of
                           None \<Rightarrow> None
                         | Some es \<Rightarrow> find (\<lambda>e. eff_type e = ''ken-burns'') es) of
                     Some kenBurnsEffect \<Rightarrow>
                       c\<lparr>cmd_complexFilter :=
                           [KenBurns (generateKenBurnsFilter (eff_params kenBurnsEffect)
                                        duration outputSettings)]\<rparr>
                   | None \<Rightarrow> c\<lparr>cmd_complexFilter := [scalePadFps outputSettings]\<rparr>)
             else if asset_type asset = ''pexels-video'' \<or> asset_type asset = ''video'' then
               cmd0\<lparr>cmd_inputOptions :=
                      [Str ''-ss'', NumStr (num_or (clip_inPoint clip) 0),
                       Str ''-t'', NumStr duration],
                    cmd_complexFilter := [scalePadFps outputSettings]\<rparr>
             else cmd0)
      in cmd1\<lparr>cmd_outputOptions :=
                [Str ''-c:v'',
                 Str (if os_codec outputSettings = ''h265'' then ''libx265'' else ''libx264''),
                 Str ''-preset'', Str ''fast'', Str ''-crf'', Str ''18'',
                 Str ''-pix_fmt'', Str ''yuv420p'', Str ''-an'', Str ''-y''],
              cmd_output := outputPath\<rparr>)"

subsection \<open>\<open>searchPexelsVideo\<close> (controller.js)\<close>

datatype error =
    MissingApiKey
  | RequestFailed
  | NoPexelsVideos string
  | TypeError
  | ScriptFailed
  | DownloadFailed
  | SpeechFailed
  | StorageFailed

record video_file =
  vf_quality :: string
  vf_link :: string
  vf_width :: real
  vf_height :: real

record video =
  v_id :: int
  v_duration :: real
  v_video_files :: "video_file list"

record pexels_video =
  pv_id :: int
  pv_url :: string
  pv_duration :: real
  pv_width :: real
  pv_height :: real

text \<open>
  \<open>video.video_files.find(f => f.quality === 'hd') || video.video_files[0]\<close>;
  \<open>None\<close> is \<open>undefined\<close> (no encode at all).
\<close>

definition hdFile :: "video \<Rightarrow> video_file option" where
  "hdFile video =
     (case find (\<lambda>f. vf_quality f = ''hd'') (v_video_files video) of
        Some f \<Rightarrow> Some f
      | None \<Rightarrow> (case v_video_files video of [] \<Rightarrow> None | f # _ \<Rightarrow> Some f))"

text \<open>
  The object returned for the chosen video (the same in both branches of the
  source); reading \<open>hdFile.link\<close> when \<open>hdFile\<close> is \<open>undefined\<close> throws a TypeError.
\<close>

definition video_result :: "video \<Rightarrow> error + pexels_video" where
  "video_result video =
     (case hdFile video of
        None \<Rightarrow> Inl TypeError
      | Some f \<Rightarrow>
          Inr \<lparr>pv_id = v_id video, pv_url = vf_link f, pv_duration = v_duration video,
               pv_width = vf_width f, pv_height = vf_height f\<rparr>)"

text \<open>
  \<open>pexelsApiKey\<close> is \<open>config.pexelsApiKey\<close>; \<open>provider query\<close> is
  \<open>response.data.videos\<close> of the request, \<open>None\<close> when the request rejects.
\<close>

definition searchPexelsVideo ::
    "string option \<Rightarrow> (string \<Rightarrow> video list option) \<Rightarrow> string \<Rightarrow> real option
      \<Rightarrow> error + pexels_video" where
  "searchPexelsVideo pexelsApiKey provider query minDuration0 =
     (let minDuration = num_default minDuration0 5
      in if \<not> truthy_str pexelsApiKey then Inl MissingApiKey
         else (case provider query of
                 None \<Rightarrow> Inl RequestFailed
               | Some all_videos \<Rightarrow>
                   (case filter (\<lambda>v. v_duration v \<ge> minDuration) all_videos of
                      [] \<Rightarrow>
                        (case all_videos of
                           [] \<Rightarrow> Inl (NoPexelsVideos query)
                         | video # _ \<Rightarrow> video_result video)
                    | video # _ \<Rightarrow> video_result video)))"

text \<open>
  The selection policy in the specification's words: the first video whose duration
  is at least the minimum, and the first returned video when there is none.
\<close>

definition spec_choose_video :: "real \<Rightarrow> video list \<Rightarrow> video option" where
  "spec_choose_video minDuration vs =
     (case find (\<lambda>v. minDuration \<le> v_duration v) vs of
        Some v \<Rightarrow> Some v
      | None \<Rightarrow> (case vs of [] \<Rightarrow> None | v # _ \<Rightarrow> Some v))"

subsection \<open>\<open>orchestrateVideoGeneration\<close> (controller.js)\<close>

text \<open>
  Everything outside the process is a component of \<open>world\<close>: the providers answer
  with a value or reject (\<open>None\<close>). The voice configuration passed to the speech
  provider is part of that provider's answer.
\<close>

record world =
  w_uuid :: string
  w_bucketName :: string
  w_pexelsApiKey :: "string option"
  w_now :: string
  w_generateScript :: "string \<Rightarrow> real \<Rightarrow> script option"
  w_generateImage :: "string \<Rightarrow> string \<Rightarrow> string \<Rightarrow> string option"
  w_pexelsSearch :: "string \<Rightarrow> video list option"
  w_downloadVideo :: "string \<Rightarrow> string \<Rightarrow> string \<Rightarrow> string option"
  w_generateSpeech :: "string \<Rightarrow> string \<Rightarrow> string \<Rightarrow> (string \<times> real) option"
  w_saveEdl :: "string \<Rightarrow> edl \<Rightarrow> bool"
  w_dispatch :: "string \<Rightarrow> string \<Rightarrow> string option"

record request =
  req_jobId :: "string option"
  req_topic :: string
  req_targetDuration :: "real option"
  req_options :: "options option"

record job_info =
  ji_jobId :: string
  ji_status :: string
  ji_edlPath :: string
  ji_script :: script
  ji_assetCount :: nat
  ji_estimatedDuration :: real
  ji_renderExecution :: "string option"

text \<open>A promise of \<open>assetPromises\<close> once settled: the key it wrote, or its rejection.\<close>

datatype settled = Fulfilled string asset | Rejected error

definition pexels_asset :: "string \<Rightarrow> string \<Rightarrow> asset" where
  "pexels_asset gcsPath searchQuery =
     \<lparr>asset_type = ''pexels-video'', asset_source = gcsPath, asset_duration = None,
      asset_prompt = None, asset_searchQuery = Some searchQuery\<rparr>"

text \<open>
  \<open>searchPexelsVideo(query, scene.duration).then(download).then(write)\<close>: the chain
  of both the fallback and the direct stock-footage path.
\<close>

definition pexels_chain :: "world \<Rightarrow> string \<Rightarrow> scene \<Rightarrow> string \<Rightarrow> settled" where
  "pexels_chain w jobId scene query =
     (case searchPexelsVideo (w_pexelsApiKey w) (w_pexelsSearch w) query
             (Some (scene_duration scene)) of
        Inl e \<Rightarrow> Rejected e
      | Inr video \<Rightarrow>
          (case w_downloadVideo w (pv_url video) jobId (visualAssetId scene) of
             None \<Rightarrow> Rejected DownloadFailed
           | Some gcsPath \<Rightarrow> Fulfilled (visualAssetId scene) (pexels_asset gcsPath query)))"

definition visual_promise :: "world \<Rightarrow> string \<Rightarrow> scene \<Rightarrow> settled list" where
  "visual_promise w jobId scene =
     (if scene_visualType scene = ''image'' \<and> truthy_str (scene_imagePrompt scene) then
        (case w_generateImage w (str_default (scene_imagePrompt scene) []) jobId
                (visualAssetId scene) of
           Some gcsPath \<Rightarrow>
             [Fulfilled (visualAssetId scene)
                \<lparr>asset_type = ''generated-image'', asset_source = gcsPath,
                 asset_duration = None, asset_prompt = scene_imagePrompt scene,
                 asset_searchQuery = None\<rparr>]
         | None \<Rightarrow>
             [pexels_chain w jobId scene
                (str_or (scene_searchQuery scene) (scene_visualDescription scene))])
      else if scene_visualType scene = ''video'' \<and> truthy_str (scene_searchQuery scene) then
        [pexels_chain w jobId scene (str_default (scene_searchQuery scene) [])]
      else [])"

definition audio_promise :: "world \<Rightarrow> string \<Rightarrow> scene \<Rightarrow> settled list" where
  "audio_promise w jobId scene =
     (if scene_narration scene \<noteq> [] then
        (case w_generateSpeech w (scene_narration scene) jobId (audioAssetId scene) of
           None \<Rightarrow> [Rejected SpeechFailed]
         | Some (gcsPath, duration) \<Rightarrow>
             [Fulfilled (audioAssetId scene)
                \<lparr>asset_type = ''generated-audio'', asset_source = gcsPath,
                 asset_duration = Some duration, asset_prompt = None,
                 asset_searchQuery = None\<rparr>])
      else [])"

text \<open>The array \<open>assetPromises\<close>, in the order the loop pushes to it, each promise settled.\<close>

fun assetPromises :: "world \<Rightarrow> string \<Rightarrow> scene list \<Rightarrow> settled list" where
  "assetPromises w jobId [] = []"
| "assetPromises w jobId (scene # rest) =
     visual_promise w jobId scene @ audio_promise w jobId scene @ assetPromises w jobId rest"

text \<open>
  \<open>await Promise.all(assetPromises)\<close> throws as soon as one promise rejects. Which
  rejection it throws when several reject is a matter of timing; the model takes
  the first in the array. With no rejection every promise has written its key;
  writes to the same key (scenes sharing an id) are applied in array order.
\<close>

fun first_rejection :: "settled list \<Rightarrow> error option" where
  "first_rejection [] = None"
| "first_rejection (Rejected e # ps) = Some e"
| "first_rejection (Fulfilled k a # ps) = first_rejection ps"

fun written :: "settled list \<Rightarrow> assets \<Rightarrow> assets" where
  "written [] m = m"
| "written (Fulfilled k a # ps) m = written ps (m(k \<mapsto> a))"
| "written (Rejected e # ps) m = written ps m"

definition promise_all :: "settled list \<Rightarrow> error + assets" where
  "promise_all ps =
     (case first_rejection ps of Some e \<Rightarrow> Inl e | None \<Rightarrow> Inr (written ps Map.empty))"

definition no_options :: options where
  "no_options =
     \<lparr>opt_width = None, opt_height = None, opt_fps = None, opt_format = None,
      opt_codec = None, opt_bitrate = None, opt_useGpu = None, opt_preset = None,
      opt_crf = None\<rparr>"

definition orchestrateVideoGeneration :: "world \<Rightarrow> request \<Rightarrow> error + job_info" where
  "orchestrateVideoGeneration w request =
     (let jobId = str_or (req_jobId request) (w_uuid w);
          topic = req_topic request;
          targetDuration = num_or (req_targetDuration request) 120;
          options = (case req_options request of Some opts \<Rightarrow> opts | None \<Rightarrow> no_options)
      in case w_generateScript w topic targetDuration of
           None \<Rightarrow> Inl ScriptFailed
         | Some script \<Rightarrow>
             (case promise_all (assetPromises w jobId (script_scenes script)) of
                Inl e \<Rightarrow> Inl e
              | Inr assets \<Rightarrow>
                  (let edl = buildEDL (w_now w) script assets options;
                       edlPath = ''jobs/'' @ jobId @ ''/edl.json'';
                       edlGcsPath = ''gs://'' @ w_bucketName w @ ''/'' @ edlPath
                   in if \<not> w_saveEdl w edlPath edl then Inl StorageFailed
                      else Inr \<lparr>ji_jobId = jobId,
                                ji_status = ''processing'',
                                ji_edlPath = edlGcsPath,
                                ji_script = script,
                                ji_assetCount = card (dom assets),
                                ji_estimatedDuration = tl_duration (edl_timeline edl),
                                ji_renderExecution = w_dispatch w jobId edlGcsPath\<rparr>)))"

text \<open>
  The EDL that the orchestrator builds and saves, when it gets that far
  (\<open>None\<close> when it has thrown before \<open>buildEDL\<close>).
\<close>

definition orchestrated_edl :: "world \<Rightarrow> request \<Rightarrow> edl option" where
  "orchestrated_edl w request =
     (let jobId = str_or (req_jobId request) (w_uuid w);
          options = (case req_options request of Some opts \<Rightarrow> opts | None \<Rightarrow> no_options)
      in case w_generateScript w (req_topic request) (num_or (req_targetDuration request) 120) of
           None \<Rightarrow> None
         | Some script \<Rightarrow>
             (case promise_all (assetPromises w jobId (script_scenes script)) of
                Inl e \<Rightarrow> None
              | Inr assets \<Rightarrow> Some (buildEDL (w_now w) script assets options)))"

subsection \<open>The loop invariant of \<open>buildEDL\<close>\<close>

text \<open>The state in which the loop starts, and what every iteration preserves.\<close>

definition initial_state :: build_state where
  "initial_state = \<lparr>currentTime = 0, videoClips = [], audioClips = []\<rparr>"

definition loop_inv :: "assets \<Rightarrow> build_state \<Rightarrow> bool" where
  "loop_inv A st =
     (contiguous_from 0 (videoClips st) \<and> contiguous_from 0 (audioClips st) \<and>
      currentTime st = sum_list (map clip_duration (videoClips st)) \<and>
      currentTime st = sum_list (map clip_duration (audioClips st)) \<and>
      list_all (\<lambda>c. A (clip_assetId c) \<noteq> None) (videoClips st @ audioClips st) \<and>
      list_all
        (\<lambda>c. clip_transitions c = (if clip_startTime c > 0 then Some dissolve_in else None))
        (videoClips st))"

subsection \<open>Rejection of a scene's promises\<close>

text \<open>Whether some promise issued for a scene rejects.\<close>

definition slot_rejects :: "world \<Rightarrow> string \<Rightarrow> scene \<Rightarrow> bool" where
  "slot_rejects w jobId scene =
     (first_rejection (visual_promise w jobId scene @ audio_promise w jobId scene) \<noteq> None)"

subsection \<open>\<open>buildEDL\<close> on absent and null arguments\<close>








subsection \<open>Concrete inputs\<close>

text \<open>Scripts, assets and clips on which the theorems below are evaluated.\<close>

definition ex_scene :: "string \<Rightarrow> real \<Rightarrow> scene" where
  "ex_scene i d =
     \<lparr>scene_id = i, scene_duration = d, scene_narration = ''Hello there'',
      scene_visualDescription = ''a view'', scene_visualType = ''image'',
      scene_searchQuery = None, scene_imagePrompt = Some ''a picture'',
      scene_kenBurns = None\<rparr>"

definition ex_image :: asset where
  "ex_image =
     \<lparr>asset_type = ''generated-image'', asset_source = ''gs://b/i.png'',
      asset_duration = None, asset_prompt = Some ''a picture'', asset_searchQuery = None\<rparr>"

definition ex_audio :: "real option \<Rightarrow> asset" where
  "ex_audio d =
     \<lparr>asset_type = ''generated-audio'', asset_source = ''gs://b/a.mp3'',
      asset_duration = d, asset_prompt = None, asset_searchQuery = None\<rparr>"

definition ex_script :: "scene list \<Rightarrow> script" where
  "ex_script ss = \<lparr>script_title = ''T'', script_description = ''D'', script_scenes = ss\<rparr>"

definition ex_now :: string where
  "ex_now = ''2026-01-01T00:00:00.000Z''"

definition ex_assets_zero :: assets where
  "ex_assets_zero = [''visual_s1'' \<mapsto> ex_image, ''audio_s1'' \<mapsto> ex_audio (Some 0)]"

definition ex_assets_gap :: assets where
  "ex_assets_gap =
     [''visual_s1'' \<mapsto> ex_image, ''audio_s1'' \<mapsto> ex_audio (Some 3),
      ''audio_s2'' \<mapsto> ex_audio (Some 5),
      ''visual_s3'' \<mapsto> ex_image, ''audio_s3'' \<mapsto> ex_audio None]"

definition ex_three :: script where
  "ex_three = ex_script [ex_scene ''s1'' 10, ex_scene ''s2'' 7, ex_scene ''s3'' 4]"

definition ex_assets_two :: assets where
  "ex_assets_two =
     [''visual_s1'' \<mapsto> ex_image, ''audio_s1'' \<mapsto> ex_audio None,
      ''visual_s2'' \<mapsto> ex_image, ''audio_s2'' \<mapsto> ex_audio None]"

definition ex_negative :: script where
  "ex_negative = ex_script [ex_scene ''s1'' (- 5), ex_scene ''s2'' 3]"

definition ex_zero_first :: script where
  "ex_zero_first = ex_script [ex_scene ''s1'' 0, ex_scene ''s2'' 5]"

definition ex_settings :: outputSettings where
  "ex_settings =
     \<lparr>os_width = Some 1920, os_height = Some 1080, os_fps = Some 30, os_format = ''mp4'',
      os_codec = ''h264'', os_bitrate = ''8M'', os_audioCodec = ''aac'',
      os_audioBitrate = ''192K''\<rparr>"


definition ex_pan_params :: "string \<Rightarrow> kb_params" where
  "ex_pan_params easing =
     \<lparr>p_startZoom = Some 1, p_endZoom = Some 2, p_startX = Some 0, p_startY = Some 0,
      p_endX = Some 1, p_endY = Some 1, p_easing = Some easing\<rparr>"

definition ex_video_asset :: asset where
  "ex_video_asset =
     \<lparr>asset_type = ''pexels-video'', asset_source = ''gs://b/v.mp4'', asset_duration = None,
      asset_prompt = None, asset_searchQuery = Some ''ocean''\<rparr>"

definition ex_clip_fades :: clip where
  "ex_clip_fades =
     \<lparr>clip_id = ''clip_s2'', clip_assetId = ''visual_s2'', clip_startTime = 3,
      clip_duration = 5, clip_effects = Some [],
      clip_transitions =
        Some \<lparr>tr_in = Some \<lparr>tr_type = ''dissolve'', tr_duration = Some (1 / 2)\<rparr>,
              tr_out = Some \<lparr>tr_type = ''fade'', tr_duration = Some 1\<rparr>\<rparr>,
      clip_inPoint = None\<rparr>"


definition ex_video :: "int \<Rightarrow> real \<Rightarrow> video_file list \<Rightarrow> video" where
  "ex_video i d fs = \<lparr>v_id = i, v_duration = d, v_video_files = fs\<rparr>"

definition ex_file :: "string \<Rightarrow> string \<Rightarrow> video_file" where
  "ex_file q l = \<lparr>vf_quality = q, vf_link = l, vf_width = 1280, vf_height = 720\<rparr>"

definition ex_results :: "video list" where
  "ex_results =
     [ex_video 1 3 [ex_file ''hd'' ''https://p/1hd''],
      ex_video 2 8 [ex_file ''sd'' ''https://p/2sd'', ex_file ''hd'' ''https://p/2hd''],
      ex_video 3 9 [ex_file ''hd'' ''https://p/3hd'']]"

definition ex_video_scene :: "string \<Rightarrow> real \<Rightarrow> scene" where
  "ex_video_scene i d =
     \<lparr>scene_id = i, scene_duration = d, scene_narration = ''Waves roll in'',
      scene_visualDescription = ''the sea'', scene_visualType = ''video'',
      scene_searchQuery = Some ''ocean'', scene_imagePrompt = None,
      scene_kenBurns = None\<rparr>"

definition ex_world ::
    "(string \<Rightarrow> string \<Rightarrow> string \<Rightarrow> string option) \<Rightarrow> (string \<Rightarrow> video list option) \<Rightarrow>
     (string \<Rightarrow> string \<Rightarrow> string \<Rightarrow> (string \<times> real) option) \<Rightarrow> world" where
  "ex_world img srch spch =
     \<lparr>w_uuid = ''job-1'', w_bucketName = ''bucket'', w_pexelsApiKey = Some ''key'',
      w_now = ex_now,
      w_generateScript = (\<lambda>topic d. Some (ex_script [ex_scene ''s1'' 10, ex_video_scene ''s2'' 6])),
      w_generateImage = img,
      w_pexelsSearch = srch,
      w_downloadVideo = (\<lambda>url jobId assetId. Some (''gs://bucket/'' @ assetId @ ''.mp4'')),
      w_generateSpeech = spch,
      w_saveEdl = (\<lambda>path e. True),
      w_dispatch = (\<lambda>jobId path. Some ''execution-1'')\<rparr>"

definition image_ok :: "string \<Rightarrow> string \<Rightarrow> string \<Rightarrow> string option" where
  "image_ok prompt jobId assetId = Some (''gs://bucket/'' @ assetId @ ''.png'')"

definition speech_ok :: "string \<Rightarrow> string \<Rightarrow> string \<Rightarrow> (string \<times> real) option" where
  "speech_ok narr jobId assetId = Some (''gs://bucket/'' @ assetId @ ''.mp3'', 4)"

definition ex_request :: request where
  "ex_request =
     \<lparr>req_jobId = None, req_topic = ''the sea'', req_targetDuration = None,
      req_options = None\<rparr>"

definition image_fails :: "string \<Rightarrow> string \<Rightarrow> string \<Rightarrow> string option" where
  "image_fails prompt jobId assetId = None"

definition speech_fails :: "string \<Rightarrow> string \<Rightarrow> string \<Rightarrow> (string \<times> real) option" where
  "speech_fails narr jobId assetId = None"

definition search_ok :: "string \<Rightarrow> video list option" where
  "search_ok query = Some ex_results"

definition search_empty :: "string \<Rightarrow> video list option" where
  "search_empty query = Some []"

definition ex_two_scenes :: script where
  "ex_two_scenes = ex_script [ex_scene ''s1'' 10, ex_video_scene ''s2'' 6]"


section \<open>Properties\<close>

lemmas input_defs = has_assets_def scene_clipDuration_def surviving_def visualAssetId_def
  audioAssetId_def clipDuration_def num_or_def

lemmas ex_defs = ex_scene_def ex_image_def ex_audio_def ex_script_def ex_now_def

subsection \<open>The loop of \<open>buildEDL\<close>\<close>

lemma loop_body_skip: "\<not> has_assets A s \<Longrightarrow> loop_body A s st = st"
  by (auto simp: has_assets_def loop_body_def split: option.splits)

lemma loop_body_keep:
  assumes "has_assets A s"
  obtains v a where "A (visualAssetId s) = Some v" and "A (audioAssetId s) = Some a"
    and "loop_body A s st =
      \<lparr>currentTime = currentTime st + scene_clipDuration A s,
       videoClips = videoClips st @ [videoClip v a s (currentTime st)],
       audioClips = audioClips st @ [audioClip a s (currentTime st)]\<rparr>"
  using assms
  by (auto simp: has_assets_def loop_body_def scene_clipDuration_def)

lemma clip_duration_videoClip: "clip_duration (videoClip v a s t) = clipDuration a s"
  by (simp add: videoClip_def)

lemma clip_duration_audioClip: "clip_duration (audioClip a s t) = clipDuration a s"
  by (simp add: audioClip_def)

lemma scene_clipDuration_Some:
  "A (audioAssetId s) = Some a \<Longrightarrow> scene_clipDuration A s = clipDuration a s"
  by (simp add: scene_clipDuration_def)

lemma surviving_Cons:
  "surviving A (s # ss) = (if has_assets A s then s # surviving A ss else surviving A ss)"
  by (simp add: surviving_def)

lemma build_loop_currentTime:
  "currentTime (build_loop A ss st) =
     currentTime st + sum_list (map (scene_clipDuration A) (surviving A ss))"
proof (induction ss arbitrary: st)
  case Nil
  show ?case by (simp add: surviving_def)
next
  case (Cons s ss)
  show ?case
  proof (cases "has_assets A s")
    case True
    then obtain v a where "loop_body A s st =
      \<lparr>currentTime = currentTime st + scene_clipDuration A s,
       videoClips = videoClips st @ [videoClip v a s (currentTime st)],
       audioClips = audioClips st @ [audioClip a s (currentTime st)]\<rparr>"
      by (rule loop_body_keep)
    with True show ?thesis using Cons.IH [of "loop_body A s st"]
      by (simp add: surviving_Cons)
  next
    case False
    then show ?thesis using Cons.IH [of st] by (simp add: surviving_Cons loop_body_skip)
  qed
qed

lemma build_loop_video_durations:
  "map clip_duration (videoClips (build_loop A ss st)) =
     map clip_duration (videoClips st) @ map (scene_clipDuration A) (surviving A ss)"
proof (induction ss arbitrary: st)
  case Nil
  show ?case by (simp add: surviving_def)
next
  case (Cons s ss)
  show ?case
  proof (cases "has_assets A s")
    case True
    then obtain v a where "A (audioAssetId s) = Some a" and "loop_body A s st =
      \<lparr>currentTime = currentTime st + scene_clipDuration A s,
       videoClips = videoClips st @ [videoClip v a s (currentTime st)],
       audioClips = audioClips st @ [audioClip a s (currentTime st)]\<rparr>"
      by (rule loop_body_keep)
    with True show ?thesis using Cons.IH [of "loop_body A s st"]
      by (simp add: surviving_Cons clip_duration_videoClip scene_clipDuration_Some)
  next
    case False
    then show ?thesis using Cons.IH [of st] by (simp add: surviving_Cons loop_body_skip)
  qed
qed

lemma build_loop_audio_durations:
  "map clip_duration (audioClips (build_loop A ss st)) =
     map clip_duration (audioClips st) @ map (scene_clipDuration A) (surviving A ss)"
proof (induction ss arbitrary: st)
  case Nil
  show ?case by (simp add: surviving_def)
next
  case (Cons s ss)
  show ?case
  proof (cases "has_assets A s")
    case True
    then obtain v a where "A (audioAssetId s) = Some a" and "loop_body A s st =
      \<lparr>currentTime = currentTime st + scene_clipDuration A s,
       videoClips = videoClips st @ [videoClip v a s (currentTime st)],
       audioClips = audioClips st @ [audioClip a s (currentTime st)]\<rparr>"
      by (rule loop_body_keep)
    with True show ?thesis using Cons.IH [of "loop_body A s st"]
      by (simp add: surviving_Cons clip_duration_audioClip scene_clipDuration_Some)
  next
    case False
    then show ?thesis using Cons.IH [of st] by (simp add: surviving_Cons loop_body_skip)
  qed
qed

lemma buildEDL_duration:
  "tl_duration (edl_timeline (buildEDL now sc A opts)) =
     currentTime (build_loop A (script_scenes sc) initial_state)"
  by (simp add: buildEDL_def Let_def initial_state_def)

lemma buildEDL_video:
  "video_track_clips (buildEDL now sc A opts) =
     videoClips (build_loop A (script_scenes sc) initial_state)"
  by (simp add: buildEDL_def video_track_clips_def Let_def initial_state_def)

lemma buildEDL_audio:
  "audio_track_clips (buildEDL now sc A opts) =
     audioClips (build_loop A (script_scenes sc) initial_state)"
  by (simp add: buildEDL_def audio_track_clips_def Let_def initial_state_def)

lemma buildEDL_assets: "edl_assets (buildEDL now sc A opts) = A"
  by (simp add: buildEDL_def Let_def)

lemma buildEDL_video_durations:
  "map clip_duration (video_track_clips (buildEDL now sc A opts)) =
     map (scene_clipDuration A) (surviving A (script_scenes sc))"
  using build_loop_video_durations [of A "script_scenes sc" initial_state]
  by (simp add: buildEDL_video initial_state_def)

lemma buildEDL_audio_durations:
  "map clip_duration (audio_track_clips (buildEDL now sc A opts)) =
     map (scene_clipDuration A) (surviving A (script_scenes sc))"
  using build_loop_audio_durations [of A "script_scenes sc" initial_state]
  by (simp add: buildEDL_audio initial_state_def)

lemma buildEDL_total_duration:
  "tl_duration (edl_timeline (buildEDL now sc A opts)) =
     sum_list (map (scene_clipDuration A) (surviving A (script_scenes sc)))"
  using build_loop_currentTime [of A "script_scenes sc" initial_state]
  by (simp add: buildEDL_duration initial_state_def)


lemma build_loop_video_assetIds:
  "map clip_assetId (videoClips (build_loop A ss st)) =
     map clip_assetId (videoClips st) @ map visualAssetId (surviving A ss)"
proof (induction ss arbitrary: st)
  case Nil
  show ?case by (simp add: surviving_def)
next
  case (Cons s ss)
  show ?case
  proof (cases "has_assets A s")
    case True
    then obtain v a where "loop_body A s st =
      \<lparr>currentTime = currentTime st + scene_clipDuration A s,
       videoClips = videoClips st @ [videoClip v a s (currentTime st)],
       audioClips = audioClips st @ [audioClip a s (currentTime st)]\<rparr>"
      by (rule loop_body_keep)
    with True show ?thesis using Cons.IH [of "loop_body A s st"]
      by (simp add: surviving_Cons videoClip_def)
  next
    case False
    then show ?thesis using Cons.IH [of st] by (simp add: surviving_Cons loop_body_skip)
  qed
qed

lemma build_loop_audio_assetIds:
  "map clip_assetId (audioClips (build_loop A ss st)) =
     map clip_assetId (audioClips st) @ map audioAssetId (surviving A ss)"
proof (induction ss arbitrary: st)
  case Nil
  show ?case by (simp add: surviving_def)
next
  case (Cons s ss)
  show ?case
  proof (cases "has_assets A s")
    case True
    then obtain v a where "loop_body A s st =
      \<lparr>currentTime = currentTime st + scene_clipDuration A s,
       videoClips = videoClips st @ [videoClip v a s (currentTime st)],
       audioClips = audioClips st @ [audioClip a s (currentTime st)]\<rparr>"
      by (rule loop_body_keep)
    with True show ?thesis using Cons.IH [of "loop_body A s st"]
      by (simp add: surviving_Cons audioClip_def)
  next
    case False
    then show ?thesis using Cons.IH [of st] by (simp add: surviving_Cons loop_body_skip)
  qed
qed

lemma buildEDL_video_assetIds:
  "map clip_assetId (video_track_clips (buildEDL now sc A opts)) =
     map visualAssetId (surviving A (script_scenes sc))"
  using build_loop_video_assetIds [of A "script_scenes sc" initial_state]
  by (simp add: buildEDL_video initial_state_def)

lemma buildEDL_audio_assetIds:
  "map clip_assetId (audio_track_clips (buildEDL now sc A opts)) =
     map audioAssetId (surviving A (script_scenes sc))"
  using build_loop_audio_assetIds [of A "script_scenes sc" initial_state]
  by (simp add: buildEDL_audio initial_state_def)

subsection \<open>Timeline duration and clip counts\<close>

text \<open>
  Claim C3 as it is written takes a scene's clip duration to be the audio asset's
  duration whenever that is present. On a scene whose audio asset has the duration
  \<open>0\<close> and whose declared duration is \<open>10\<close>, the timeline built is \<open>10\<close> long, not
  \<open>0\<close>.
\<close>

theorem C3_counterexample:
  "tl_duration (edl_timeline
      (buildEDL ex_now (ex_script [ex_scene ''s1'' 10]) ex_assets_zero no_options))
   \<noteq> sum_list (map (spec_clipDuration ex_assets_zero)
         (surviving ex_assets_zero (script_scenes (ex_script [ex_scene ''s1'' 10]))))"
  by (simp add: buildEDL_total_duration ex_assets_zero_def ex_defs input_defs
      spec_clipDuration_def)

text \<open>
  Claim C3, amended: \<open>timeline.duration\<close> is the sum, over the scenes with both
  assets in the map and in script order, of the clip duration, which is the audio
  asset's duration when that is present and not zero and the scene's declared
  duration otherwise; each track holds exactly one clip per such scene, in script
  order, with that scene's asset and clip duration; an iteration on a scene that
  lacks an asset leaves the loop state, \<open>currentTime\<close> included, as it was.
\<close>

theorem C3_timeline_duration_and_clip_counts:
  "tl_duration (edl_timeline (buildEDL now sc A opts)) =
     sum_list (map (scene_clipDuration A) (surviving A (script_scenes sc))) \<and>
   map clip_assetId (video_track_clips (buildEDL now sc A opts)) =
     map visualAssetId (surviving A (script_scenes sc)) \<and>
   map clip_assetId (audio_track_clips (buildEDL now sc A opts)) =
     map audioAssetId (surviving A (script_scenes sc)) \<and>
   map clip_duration (video_track_clips (buildEDL now sc A opts)) =
     map (scene_clipDuration A) (surviving A (script_scenes sc)) \<and>
   map clip_duration (audio_track_clips (buildEDL now sc A opts)) =
     map (scene_clipDuration A) (surviving A (script_scenes sc)) \<and>
   (\<forall>s st. \<not> has_assets A s \<longrightarrow> loop_body A s st = st)"
  by (simp add: buildEDL_total_duration buildEDL_video_assetIds buildEDL_audio_assetIds
      buildEDL_video_durations buildEDL_audio_durations loop_body_skip)

theorem C3_witness:
  "tl_duration (edl_timeline (buildEDL ex_now ex_three ex_assets_gap no_options)) = 7 \<and>
   map clip_assetId (video_track_clips (buildEDL ex_now ex_three ex_assets_gap no_options)) =
     [''visual_s1'', ''visual_s3''] \<and>
   map clip_assetId (audio_track_clips (buildEDL ex_now ex_three ex_assets_gap no_options)) =
     [''audio_s1'', ''audio_s3''] \<and>
   map clip_duration (video_track_clips (buildEDL ex_now ex_three ex_assets_gap no_options)) =
     [3, 4] \<and>
   map clip_duration (audio_track_clips (buildEDL ex_now ex_three ex_assets_gap no_options)) =
     [3, 4] \<and>
   \<not> has_assets ex_assets_gap (ex_scene ''s2'' 7) \<and>
   loop_body ex_assets_gap (ex_scene ''s2'' 7)
       \<lparr>currentTime = 3, videoClips = [], audioClips = []\<rparr>
     = \<lparr>currentTime = 3, videoClips = [], audioClips = []\<rparr>"
  using C3_timeline_duration_and_clip_counts [of ex_now ex_three ex_assets_gap no_options]
  by (simp add: ex_three_def ex_assets_gap_def ex_defs input_defs)


subsection \<open>The duration fallback tests truthiness\<close>

text \<open>
  Claim C10: the clip of a surviving scene whose audio asset has the duration \<open>0\<close>,
  or no duration, lasts the scene's declared duration, on both tracks. The \<open>i\<close>-th
  clip of a track belongs to the \<open>i\<close>-th surviving scene.
\<close>

theorem C10_zero_or_absent_audio_duration:
  assumes "i < length (surviving A (script_scenes sc))"
    and "A (audioAssetId (surviving A (script_scenes sc) ! i)) = Some a"
    and "asset_duration a = None \<or> asset_duration a = Some 0"
  shows "clip_duration (video_track_clips (buildEDL now sc A opts) ! i) =
           scene_duration (surviving A (script_scenes sc) ! i)
       \<and> clip_duration (audio_track_clips (buildEDL now sc A opts) ! i) =
           scene_duration (surviving A (script_scenes sc) ! i)"
proof -
  let ?s = "surviving A (script_scenes sc) ! i"
  have d: "scene_clipDuration A ?s = scene_duration ?s"
    using assms(2,3) by (auto simp: scene_clipDuration_def clipDuration_def num_or_def)
  have lv: "i < length (video_track_clips (buildEDL now sc A opts))"
    using arg_cong [OF buildEDL_video_durations [of now sc A opts], of length] assms(1) by simp
  have la: "i < length (audio_track_clips (buildEDL now sc A opts))"
    using arg_cong [OF buildEDL_audio_durations [of now sc A opts], of length] assms(1) by simp
  have "clip_duration (video_track_clips (buildEDL now sc A opts) ! i) =
          map clip_duration (video_track_clips (buildEDL now sc A opts)) ! i"
    using lv by simp
  also have "\<dots> = scene_clipDuration A ?s"
    using assms(1) by (simp add: buildEDL_video_durations)
  finally have v: "clip_duration (video_track_clips (buildEDL now sc A opts) ! i) =
      scene_duration ?s"
    using d by simp
  have "clip_duration (audio_track_clips (buildEDL now sc A opts) ! i) =
          map clip_duration (audio_track_clips (buildEDL now sc A opts)) ! i"
    using la by simp
  also have "\<dots> = scene_clipDuration A ?s"
    using assms(1) by (simp add: buildEDL_audio_durations)
  finally have a: "clip_duration (audio_track_clips (buildEDL now sc A opts) ! i) =
      scene_duration ?s"
    using d by simp
  show ?thesis using v a by simp
qed

lemma ex_zero_surviving:
  "surviving ex_assets_zero (script_scenes (ex_script [ex_scene ''s1'' 10])) =
     [ex_scene ''s1'' 10]"
  by (simp add: ex_assets_zero_def ex_defs input_defs)

theorem C10_witness:
  "clip_duration (video_track_clips
      (buildEDL ex_now (ex_script [ex_scene ''s1'' 10]) ex_assets_zero no_options) ! 0) = 10
   \<and> clip_duration (audio_track_clips
      (buildEDL ex_now (ex_script [ex_scene ''s1'' 10]) ex_assets_zero no_options) ! 0) = 10"
proof -
  have 1: "0 < length (surviving ex_assets_zero (script_scenes (ex_script [ex_scene ''s1'' 10])))"
    by (simp add: ex_zero_surviving)
  have 2: "ex_assets_zero (audioAssetId
        (surviving ex_assets_zero (script_scenes (ex_script [ex_scene ''s1'' 10])) ! 0))
      = Some (ex_audio (Some 0))"
    by (simp add: ex_zero_surviving) (simp add: ex_assets_zero_def ex_scene_def audioAssetId_def)
  have 3: "asset_duration (ex_audio (Some 0)) = None \<or>
      asset_duration (ex_audio (Some 0)) = Some 0"
    by (simp add: ex_audio_def)
  show ?thesis
    using C10_zero_or_absent_audio_duration [OF 1 2 3, of ex_now no_options]
    by (simp add: ex_zero_surviving) (simp add: ex_scene_def)
qed

subsection \<open>The EDL invariant\<close>

lemma contiguous_from_snoc:
  "contiguous_from t (cs @ [c]) =
     (contiguous_from t cs \<and> clip_startTime c = t + sum_list (map clip_duration cs))"
  by (induction cs arbitrary: t) (auto simp: algebra_simps)

lemma contiguous_from_contiguous: "contiguous_from t cs \<Longrightarrow> contiguous cs"
proof (induction cs arbitrary: t)
  case Nil
  show ?case by simp
next
  case (Cons c cs)
  then show ?case by (cases cs) auto
qed

lemma contiguous_from_nondecreasing:
  "contiguous_from t cs \<Longrightarrow> list_all (\<lambda>c. 0 \<le> clip_duration c) cs \<Longrightarrow> nondecreasing cs"
proof (induction cs arbitrary: t)
  case Nil
  show ?case by simp
next
  case (Cons c cs)
  then show ?case by (cases cs) auto
qed

lemma contiguous_from_end:
  "contiguous_from 0 cs \<Longrightarrow>
     (case rev cs of [] \<Rightarrow> True
      | c # _ \<Rightarrow> sum_list (map clip_duration cs) = clip_startTime c + clip_duration c)"
  by (cases cs rule: rev_cases) (auto simp: contiguous_from_snoc)

lemma loop_inv_initial: "loop_inv A initial_state"
  by (simp add: loop_inv_def initial_state_def)

lemma loop_inv_body:
  assumes "loop_inv A st"
  shows "loop_inv A (loop_body A s st)"
proof (cases "has_assets A s")
  case False
  then show ?thesis using assms by (simp add: loop_body_skip)
next
  case True
  then obtain v a where va: "A (visualAssetId s) = Some v" "A (audioAssetId s) = Some a"
    and lb: "loop_body A s st =
      \<lparr>currentTime = currentTime st + scene_clipDuration A s,
       videoClips = videoClips st @ [videoClip v a s (currentTime st)],
       audioClips = audioClips st @ [audioClip a s (currentTime st)]\<rparr>"
    by (rule loop_body_keep)
  have d: "scene_clipDuration A s = clipDuration a s"
    using va(2) by (rule scene_clipDuration_Some)
  show ?thesis
    using assms va
    by (simp add: loop_inv_def lb d contiguous_from_snoc videoClip_def audioClip_def)
qed

lemma loop_inv_loop: "loop_inv A st \<Longrightarrow> loop_inv A (build_loop A ss st)"
  by (induction ss arbitrary: st) (simp_all add: loop_inv_body)

lemma buildEDL_inv: "loop_inv A (build_loop A (script_scenes sc) initial_state)"
  by (rule loop_inv_loop [OF loop_inv_initial])

lemma buildEDL_assets_resolve: "assets_resolve (buildEDL now sc A opts)"
  using buildEDL_inv [of A sc]
  by (simp add: assets_resolve_def buildEDL_video buildEDL_audio buildEDL_assets loop_inv_def)

lemma buildEDL_duration_is_end: "duration_is_end (buildEDL now sc A opts)"
proof -
  let ?st = "build_loop A (script_scenes sc) initial_state"
  have "contiguous_from 0 (videoClips ?st)"
    and "currentTime ?st = sum_list (map clip_duration (videoClips ?st))"
    using buildEDL_inv [of A sc] by (simp_all add: loop_inv_def)
  then show ?thesis
    using contiguous_from_end [of "videoClips ?st"]
    by (simp add: duration_is_end_def buildEDL_video buildEDL_duration split: list.splits)
qed

lemma buildEDL_tracks_contiguous: "tracks_contiguous (buildEDL now sc A opts)"
  using buildEDL_inv [of A sc]
  by (auto simp: tracks_contiguous_def buildEDL_video buildEDL_audio loop_inv_def
      intro: contiguous_from_contiguous)

lemma list_all_map_iff: "list_all P (map f xs) = list_all (\<lambda>x. P (f x)) xs"
  by (induction xs) simp_all

lemma buildEDL_tracks_nondecreasing:
  assumes "list_all (\<lambda>s. 0 \<le> scene_clipDuration A s) (surviving A (script_scenes sc))"
  shows "tracks_nondecreasing (buildEDL now sc A opts)"
proof -
  let ?st = "build_loop A (script_scenes sc) initial_state"
  have "list_all (\<lambda>d. 0 \<le> d) (map (scene_clipDuration A) (surviving A (script_scenes sc)))"
    using assms by (simp add: list_all_map_iff)
  then have "list_all (\<lambda>d. 0 \<le> d)
        (map clip_duration (video_track_clips (buildEDL now sc A opts)))"
    and "list_all (\<lambda>d. 0 \<le> d)
        (map clip_duration (audio_track_clips (buildEDL now sc A opts)))"
    by (simp_all only: buildEDL_video_durations buildEDL_audio_durations)
  then have v: "list_all (\<lambda>c. 0 \<le> clip_duration c)
        (videoClips (build_loop A (script_scenes sc) initial_state))"
    and a: "list_all (\<lambda>c. 0 \<le> clip_duration c)
        (audioClips (build_loop A (script_scenes sc) initial_state))"
    by (simp_all add: list_all_map_iff buildEDL_video buildEDL_audio)
  have "contiguous_from 0 (videoClips ?st)" and "contiguous_from 0 (audioClips ?st)"
    using buildEDL_inv [of A sc] by (simp_all add: loop_inv_def)
  then show ?thesis
    using v a
    by (auto simp: tracks_nondecreasing_def buildEDL_video buildEDL_audio
        intro: contiguous_from_nondecreasing)
qed

lemma ex_negative_clips:
  "map clip_startTime (video_track_clips (buildEDL ex_now ex_negative ex_assets_two no_options)) =
     [0, - 5]"
  by (simp add: buildEDL_video initial_state_def ex_negative_def ex_assets_two_def ex_defs
      loop_body_def videoClip_def visualAssetId_def audioAssetId_def clipDuration_def num_or_def)


text \<open>
  Claim C5 as it is written is about every EDL that \<open>buildEDL\<close> produces. A scene
  with the declared duration \<open>- 5\<close> gives a first clip from \<open>0\<close> and a second clip
  that starts at \<open>- 5\<close>: the start times decrease.
\<close>

theorem C5_counterexample:
  "\<not> edl_invariant (buildEDL ex_now ex_negative ex_assets_two no_options)"
proof -
  obtain c d where cs: "video_track_clips (buildEDL ex_now ex_negative ex_assets_two no_options) = [c, d]"
    and "clip_startTime c = 0" and "clip_startTime d = - 5"
    using ex_negative_clips by (auto simp: map_eq_Cons_conv)
  then have "\<not> nondecreasing (video_track_clips (buildEDL ex_now ex_negative ex_assets_two no_options))"
    by simp
  then show ?thesis by (simp add: edl_invariant_def tracks_nondecreasing_def)
qed


text \<open>
  Claim C5, amended: in every EDL that \<open>buildEDL\<close> produces, every clip's \<open>assetId\<close>
  resolves in the assets map, \<open>timeline.duration\<close> is the last video clip's
  \<open>startTime + duration\<close> when there is one, and on each track every clip starts
  where the clip before it ends; when no surviving scene has a negative clip
  duration the start times are non-decreasing as well, and the whole invariant
  holds.
\<close>

theorem C5_edl_invariant:
  "assets_resolve (buildEDL now sc A opts) \<and>
   duration_is_end (buildEDL now sc A opts) \<and>
   tracks_contiguous (buildEDL now sc A opts) \<and>
   (list_all (\<lambda>s. 0 \<le> scene_clipDuration A s) (surviving A (script_scenes sc)) \<longrightarrow>
      edl_invariant (buildEDL now sc A opts))"
  using buildEDL_assets_resolve buildEDL_duration_is_end buildEDL_tracks_contiguous
    buildEDL_tracks_nondecreasing
  by (simp add: edl_invariant_def)

lemma ex_gap_surviving:
  "surviving ex_assets_gap (script_scenes ex_three) = [ex_scene ''s1'' 10, ex_scene ''s3'' 4]"
  by (simp add: ex_three_def ex_assets_gap_def ex_defs input_defs)

theorem C5_witness:
  "edl_invariant (buildEDL ex_now ex_three ex_assets_gap no_options) \<and>
   surviving ex_assets_gap (script_scenes ex_three) = [ex_scene ''s1'' 10, ex_scene ''s3'' 4]"
proof -
  have "list_all (\<lambda>s. 0 \<le> scene_clipDuration ex_assets_gap s)
      (surviving ex_assets_gap (script_scenes ex_three))"
    by (simp add: ex_gap_surviving) (simp add: ex_assets_gap_def ex_defs input_defs)
  then show ?thesis
    using C5_edl_invariant [of ex_now ex_three ex_assets_gap no_options] ex_gap_surviving
    by simp
qed


subsection \<open>Failure and determinism of the builder\<close>














subsection \<open>Transition placement\<close>

lemma buildEDL_transitions:
  "list_all (\<lambda>c. clip_transitions c = (if clip_startTime c > 0 then Some dissolve_in else None))
     (video_track_clips (buildEDL now sc A opts))"
  using buildEDL_inv [of A sc] by (simp add: buildEDL_video loop_inv_def)

lemma buildEDL_first_clip_no_transition:
  assumes "video_track_clips (buildEDL now sc A opts) = c # cs"
  shows "transition_in c = None"
proof -
  have "contiguous_from 0 (c # cs)"
    using buildEDL_inv [of A sc] assms by (simp add: buildEDL_video loop_inv_def)
  then have "clip_startTime c = 0" by simp
  moreover have "clip_transitions c = (if clip_startTime c > 0 then Some dissolve_in else None)"
    using buildEDL_transitions [of now sc A opts] assms by simp
  ultimately show ?thesis by (simp add: transition_in_def)
qed

lemma contiguous_from_lower_bound:
  "contiguous_from t cs \<Longrightarrow> list_all (\<lambda>c. 0 < clip_duration c) cs \<Longrightarrow>
     list_all (\<lambda>c. t \<le> clip_startTime c) cs"
proof (induction cs arbitrary: t)
  case Nil
  show ?case by simp
next
  case (Cons c cs)
  then have "list_all (\<lambda>d. t + clip_duration c \<le> clip_startTime d) cs" by simp
  then have "list_all (\<lambda>d. t \<le> clip_startTime d) cs"
    using Cons.prems(2) by (auto simp: list_all_iff)
  then show ?case using Cons.prems(1) by simp
qed

lemma buildEDL_transition_placement_positive:
  assumes "list_all (\<lambda>s. 0 < scene_clipDuration A s) (surviving A (script_scenes sc))"
  shows "spec_transition_placement (video_track_clips (buildEDL now sc A opts))"
proof (cases "video_track_clips (buildEDL now sc A opts)")
  case Nil
  then show ?thesis by (simp add: spec_transition_placement_def)
next
  case (Cons c cs)
  have "list_all (\<lambda>d. 0 < d) (map (scene_clipDuration A) (surviving A (script_scenes sc)))"
    using assms by (simp add: list_all_map_iff)
  then have "list_all (\<lambda>d. 0 < d)
      (map clip_duration (video_track_clips (buildEDL now sc A opts)))"
    by (simp only: buildEDL_video_durations)
  then have pos: "0 < clip_duration c" "list_all (\<lambda>d. 0 < clip_duration d) cs"
    using Cons by (simp_all add: list_all_map_iff)
  have cf: "contiguous_from 0 (c # cs)"
    using buildEDL_inv [of A sc] Cons by (simp add: buildEDL_video loop_inv_def)
  then have "list_all (\<lambda>d. 0 + clip_duration c \<le> clip_startTime d) cs"
    using contiguous_from_lower_bound [of "0 + clip_duration c" cs] pos(2) by simp
  then have later: "list_all (\<lambda>d. 0 < clip_startTime d) cs"
    using pos(1) by (auto simp: list_all_iff)
  have "list_all (\<lambda>d. clip_transitions d =
      (if clip_startTime d > 0 then Some dissolve_in else None)) cs"
    using buildEDL_transitions [of now sc A opts] Cons by simp
  then have "list_all (\<lambda>d. transition_in d =
      Some \<lparr>tr_type = ''dissolve'', tr_duration = Some (1 / 2)\<rparr>) cs"
    using later by (auto simp: list_all_iff transition_in_def dissolve_in_def)
  then show ?thesis
    using buildEDL_first_clip_no_transition [OF Cons] Cons
    by (simp add: spec_transition_placement_def)
qed

lemma ex_zero_first_clips:
  "map (\<lambda>c. (clip_startTime c, clip_duration c, clip_transitions c))
     (video_track_clips (buildEDL ex_now ex_zero_first ex_assets_two no_options)) =
   [(0, 0, None), (0, 5, None)]"
  by (simp add: buildEDL_video initial_state_def ex_zero_first_def ex_assets_two_def ex_defs
      loop_body_def videoClip_def visualAssetId_def audioAssetId_def clipDuration_def num_or_def)


text \<open>
  Claim C6 against the code at the script of two scenes whose first scene has the
  declared duration \<open>0\<close> (audio assets without a duration): both scenes survive,
  the second clip starts at \<open>0\<close>, and the test \<open>currentTime > 0\<close> leaves it without
  an \<open>in\<close> transition.
\<close>

theorem C6_second_clip_without_transition:
  "length (video_track_clips (buildEDL ex_now ex_zero_first ex_assets_two no_options)) = 2 \<and>
   transition_in (video_track_clips (buildEDL ex_now ex_zero_first ex_assets_two no_options) ! 1)
     = None \<and>
   \<not> spec_transition_placement
       (video_track_clips (buildEDL ex_now ex_zero_first ex_assets_two no_options))"
proof -
  obtain c d where cs:
      "video_track_clips (buildEDL ex_now ex_zero_first ex_assets_two no_options) = [c, d]"
    and d: "clip_transitions d = None"
    using ex_zero_first_clips by (auto simp: map_eq_Cons_conv)
  show ?thesis
    using cs d by (simp add: spec_transition_placement_def transition_in_def)
qed


subsection \<open>Ken Burns effect math\<close>

lemmas kb_defs = generateKenBurnsFilter_def zoomExpr_def panExpr_def num_default_def
  str_default_def num_or_def

lemma zoom_follows_easing:
  "expr_value t (zoomExpr easing startZoom zoomDiff duration) =
     startZoom + zoomDiff * easing_progress easing (t / duration)"
  by (simp add: zoomExpr_def easing_progress_def)

lemma pan_linear_or_cosine:
  "expr_value t (panExpr easing start panDiff duration) =
     start + panDiff * (if easing = ''ease-in-out'' then (1 - cos (pi * (t / duration))) / 2
                        else t / duration)"
  by (simp add: panExpr_def)

lemma pan_follows_easing_elsewhere:
  "easing \<noteq> ''ease-in'' \<Longrightarrow> easing \<noteq> ''ease-out'' \<Longrightarrow>
     expr_value t (panExpr easing start panDiff duration) =
       start + panDiff * easing_progress easing (t / duration)"
  by (simp add: panExpr_def easing_progress_def)


text \<open>
  Claim C7 against the code under the easing \<open>ease-in\<close>, with a pan from \<open>0\<close> to \<open>1\<close>
  on both axes, a frame of 1920 by 1080 and a clip of two seconds: half way
  through, the pan expressions stand at half of their travel (480 and 270), where
  the quadratic law gives a quarter (240 and 135); the zoom expression of the same
  filter does follow the quadratic law.
\<close>

theorem C7_pan_linear_under_ease_in:
  "expr_value 1 (kf_panXExpr (generateKenBurnsFilter (ex_pan_params ''ease-in'') 2 ex_settings)) = 480 \<and>
   0 * 1920 / 2 + (1 - 0) * 1920 / 2 * easing_progress ''ease-in'' (1 / 2) = 240 \<and>
   expr_value 1 (kf_panYExpr (generateKenBurnsFilter (ex_pan_params ''ease-in'') 2 ex_settings)) = 270 \<and>
   0 * 1080 / 2 + (1 - 0) * 1080 / 2 * easing_progress ''ease-in'' (1 / 2) = 135 \<and>
   expr_value 1 (kf_zoomExpr (generateKenBurnsFilter (ex_pan_params ''ease-in'') 2 ex_settings)) =
     1 + (2 - 1) * easing_progress ''ease-in'' (1 / 2)"
  by (simp add: kb_defs ex_pan_params_def ex_settings_def easing_progress_def Let_def
      power2_eq_square)







subsection \<open>Fade transitions in \<open>renderClip\<close>\<close>

text \<open>What \<open>videoFilters\<close> holds, and that the command holds none of it.\<close>

lemma videoFilters_fade_in:
  "transition_in clip = Some tr \<Longrightarrow> fade_type (Some tr) \<Longrightarrow>
     Fade ''in'' 0 (num_or (tr_duration tr) (1 / 2)) \<in> set (videoFilters clip)"
  by (simp add: videoFilters_def)

lemma videoFilters_fade_out:
  "transition_out clip = Some tr \<Longrightarrow> fade_type (Some tr) \<Longrightarrow>
     Fade ''out'' (clip_duration clip - num_or (tr_duration tr) (1 / 2))
       (num_or (tr_duration tr) (1 / 2)) \<in> set (videoFilters clip)"
  by (simp add: videoFilters_def Let_def)

lemma renderClip_no_fade:
  "filter is_fade (cmd_complexFilter (renderClip clip asset assetPath outputPath os)) = []"
  by (simp add: renderClip_def Let_def is_fade_def scalePadFps_def split: option.splits)


text \<open>
  Claim C2 against the code on a stock-footage clip of five seconds with a dissolve
  \<open>in\<close> of half a second and a fade \<open>out\<close> of one second: \<open>videoFilters\<close> holds
  the fade-in at \<open>0\<close> and the fade-out at \<open>5 - 1\<close>, and the command that is run holds
  the scale, pad and fps filter only.
\<close>

theorem C2_fades_not_in_command:
  "videoFilters ex_clip_fades = [Fade ''in'' 0 (1 / 2), Fade ''out'' 4 1] \<and>
   cmd_complexFilter (renderClip ex_clip_fades ex_video_asset ''/tmp/v.mp4'' ''/tmp/c.mp4''
       ex_settings) = [ScalePadFps (Some 1920) (Some 1080) (Some 30)] \<and>
   filter is_fade (cmd_complexFilter
       (renderClip ex_clip_fades ex_video_asset ''/tmp/v.mp4'' ''/tmp/c.mp4'' ex_settings)) = []"
  by (simp add: videoFilters_def renderClip_def ex_clip_fades_def ex_video_asset_def
      ex_settings_def transition_in_def transition_out_def fade_type_def num_or_def
      scalePadFps_def is_fade_def Let_def)


subsection \<open>Stock-footage selection\<close>

lemma filter_head_find: "(case filter P xs of [] \<Rightarrow> None | x # _ \<Rightarrow> Some x) = find P xs"
  by (induction xs) simp_all

lemma searchPexelsVideo_chosen:
  assumes "truthy_str key" and "provider query = Some vs"
  shows "searchPexelsVideo key provider query md =
    (case spec_choose_video (num_default md 5) vs of
       None \<Rightarrow> Inl (NoPexelsVideos query)
     | Some v \<Rightarrow> video_result v)"
proof -
  let ?P = "\<lambda>v. num_default md 5 \<le> v_duration v"
  show ?thesis
  proof (cases "filter ?P vs")
    case Nil
    then have "find ?P vs = None" using filter_head_find [of ?P vs] by simp
    with Nil show ?thesis using assms
      by (simp add: searchPexelsVideo_def spec_choose_video_def split: list.splits)
  next
    case (Cons v rest)
    then have "find ?P vs = Some v" using filter_head_find [of ?P vs] by simp
    with Cons show ?thesis using assms
      by (simp add: searchPexelsVideo_def spec_choose_video_def)
  qed
qed

lemma spec_choose_video_None: "spec_choose_video m vs = None \<longleftrightarrow> vs = []"
  by (auto simp: spec_choose_video_def split: option.splits list.splits)

lemma hdFile_None: "hdFile v = None \<longleftrightarrow> v_video_files v = []"
  by (auto simp: hdFile_def split: option.splits list.splits)

lemma video_result_fails: "isl (video_result v) \<longleftrightarrow> v_video_files v = []"
  using hdFile_None [of v] by (auto simp: video_result_def split: option.splits)


text \<open>
  Claim C9 as it is written lets the search fail only when the provider returns no
  video. A single returned video without any encode makes the search fail too:
  \<open>hdFile\<close> is \<open>undefined\<close> and reading \<open>hdFile.link\<close> throws.
\<close>

theorem C9_counterexample:
  "\<not> (isl (searchPexelsVideo (Some ''key'') (\<lambda>q. Some [ex_video 1 8 []]) ''ocean'' (Some 5))
        \<longleftrightarrow> [ex_video 1 8 []] = [])"
  by (simp add: searchPexelsVideo_def truthy_str_def num_default_def ex_video_def
      video_result_def hdFile_def)


text \<open>
  Claim C9, amended: when the API key is set and the provider answers with a list
  of videos, the search picks the first video whose duration is at least the
  requested minimum (5 when none is requested), and the first returned video when
  no video is that long; of the picked video's encodes it takes the first of
  quality \<open>hd\<close>, else the first encode; it fails if and only if the provider
  returned no video or the picked video has no encode.
\<close>

theorem C9_selection_policy:
  assumes "truthy_str key" and "provider query = Some vs"
  shows "(vs = [] \<longrightarrow> searchPexelsVideo key provider query md = Inl (NoPexelsVideos query)) \<and>
    (\<forall>v. spec_choose_video (num_default md 5) vs = Some v \<and> v_video_files v \<noteq> [] \<longrightarrow>
       searchPexelsVideo key provider query md =
         (let f = (case find (\<lambda>f. vf_quality f = ''hd'') (v_video_files v) of
                     Some f \<Rightarrow> f | None \<Rightarrow> hd (v_video_files v))
          in Inr \<lparr>pv_id = v_id v, pv_url = vf_link f, pv_duration = v_duration v,
                  pv_width = vf_width f, pv_height = vf_height f\<rparr>)) \<and>
    (isl (searchPexelsVideo key provider query md) \<longleftrightarrow>
       vs = [] \<or> (\<exists>v. spec_choose_video (num_default md 5) vs = Some v \<and> v_video_files v = []))"
proof -
  note eq = searchPexelsVideo_chosen [of key provider query vs md, OF assms]
  have a: "vs = [] \<longrightarrow> searchPexelsVideo key provider query md = Inl (NoPexelsVideos query)"
    using eq by (simp add: spec_choose_video_def)
  have b: "\<forall>v. spec_choose_video (num_default md 5) vs = Some v \<and> v_video_files v \<noteq> [] \<longrightarrow>
       searchPexelsVideo key provider query md =
         (let f = (case find (\<lambda>f. vf_quality f = ''hd'') (v_video_files v) of
                     Some f \<Rightarrow> f | None \<Rightarrow> hd (v_video_files v))
          in Inr \<lparr>pv_id = v_id v, pv_url = vf_link f, pv_duration = v_duration v,
                  pv_width = vf_width f, pv_height = vf_height f\<rparr>)"
    using eq by (auto simp: video_result_def hdFile_def Let_def split: option.splits list.splits)
  have c: "isl (searchPexelsVideo key provider query md) \<longleftrightarrow>
       vs = [] \<or> (\<exists>v. spec_choose_video (num_default md 5) vs = Some v \<and> v_video_files v = [])"
  proof (cases "spec_choose_video (num_default md 5) vs")
    case None
    then show ?thesis using eq spec_choose_video_None [of "num_default md 5" vs] by simp
  next
    case (Some v)
    then have "vs \<noteq> []" using spec_choose_video_None [of "num_default md 5" vs] by auto
    then show ?thesis using eq Some video_result_fails [of v] by simp
  qed
  show ?thesis using a b c by blast
qed

theorem C9_witness:
  "searchPexelsVideo (Some ''key'') (\<lambda>q. Some ex_results) ''ocean'' (Some 5) =
     Inr \<lparr>pv_id = 2, pv_url = ''https://p/2hd'', pv_duration = 8, pv_width = 1280,
          pv_height = 720\<rparr> \<and>
   searchPexelsVideo (Some ''key'') (\<lambda>q. Some ex_results) ''ocean'' (Some 60) =
     Inr \<lparr>pv_id = 1, pv_url = ''https://p/1hd'', pv_duration = 3, pv_width = 1280,
          pv_height = 720\<rparr> \<and>
   searchPexelsVideo (Some ''key'') (\<lambda>q. Some []) ''ocean'' (Some 5) =
     Inl (NoPexelsVideos ''ocean'')"
proof -
  have k: "truthy_str (Some ''key'')" by (simp add: truthy_str_def)
  have c5: "spec_choose_video (num_default (Some 5) 5) ex_results =
      Some (ex_video 2 8 [ex_file ''sd'' ''https://p/2sd'', ex_file ''hd'' ''https://p/2hd''])"
    by (simp add: spec_choose_video_def num_default_def ex_results_def ex_video_def)
  have c60: "spec_choose_video (num_default (Some 60) 5) ex_results =
      Some (ex_video 1 3 [ex_file ''hd'' ''https://p/1hd''])"
    by (simp add: spec_choose_video_def num_default_def ex_results_def ex_video_def)
  have 1: "searchPexelsVideo (Some ''key'') (\<lambda>q. Some ex_results) ''ocean'' (Some 5) =
     Inr \<lparr>pv_id = 2, pv_url = ''https://p/2hd'', pv_duration = 8, pv_width = 1280,
          pv_height = 720\<rparr>"
    using C9_selection_policy [of "Some ''key''" "\<lambda>q. Some ex_results" "''ocean''" ex_results
        "Some 5"] k c5
    by (simp add: ex_video_def ex_file_def)
  have 2: "searchPexelsVideo (Some ''key'') (\<lambda>q. Some ex_results) ''ocean'' (Some 60) =
     Inr \<lparr>pv_id = 1, pv_url = ''https://p/1hd'', pv_duration = 3, pv_width = 1280,
          pv_height = 720\<rparr>"
    using C9_selection_policy [of "Some ''key''" "\<lambda>q. Some ex_results" "''ocean''" ex_results
        "Some 60"] k c60
    by (simp add: ex_video_def ex_file_def)
  have 3: "searchPexelsVideo (Some ''key'') (\<lambda>q. Some []) ''ocean'' (Some 5) =
     Inl (NoPexelsVideos ''ocean'')"
    using C9_selection_policy [of "Some ''key''" "\<lambda>q. Some []" "''ocean''" "[]" "Some 5"] k
    by simp
  show ?thesis using 1 2 3 by simp
qed


subsection \<open>The asset fan-out\<close>

text \<open>\<open>orchestrated_edl\<close> is the EDL behind the result of the orchestration.\<close>

lemma orchestrate_result_edl:
  "orchestrateVideoGeneration w r = Inr ji \<Longrightarrow>
     \<exists>e. orchestrated_edl w r = Some e \<and> ji_estimatedDuration ji = tl_duration (edl_timeline e)"
  by (auto simp: orchestrateVideoGeneration_def orchestrated_edl_def Let_def
      split: option.splits sum.splits if_splits)

lemma orchestrate_no_edl:
  "orchestrated_edl w r = None \<Longrightarrow> isl (orchestrateVideoGeneration w r)"
  by (auto simp: orchestrateVideoGeneration_def orchestrated_edl_def Let_def
      split: option.splits sum.splits if_splits)

lemma orchestrate_completes:
  "orchestrated_edl w r = Some e \<Longrightarrow>
     w_saveEdl w (''jobs/'' @ str_or (req_jobId r) (w_uuid w) @ ''/edl.json'') e \<Longrightarrow>
     \<not> isl (orchestrateVideoGeneration w r)"
  by (auto simp: orchestrateVideoGeneration_def orchestrated_edl_def Let_def
      split: option.splits sum.splits if_splits)


lemma first_rejection_append:
  "first_rejection (ps @ qs) =
     (case first_rejection ps of Some e \<Rightarrow> Some e | None \<Rightarrow> first_rejection qs)"
  by (induction ps rule: first_rejection.induct) simp_all

lemma first_rejection_assetPromises:
  "first_rejection (assetPromises w jobId scenes) = None \<longleftrightarrow>
     list_all (\<lambda>scene. \<not> slot_rejects w jobId scene) scenes"
  by (induction scenes)
     (auto simp: slot_rejects_def first_rejection_append split: option.splits)

lemma promise_all_rejects:
  "isl (promise_all ps) \<longleftrightarrow> first_rejection ps \<noteq> None"
  by (auto simp: promise_all_def split: option.splits)

lemma audio_promise_rejects:
  "first_rejection (audio_promise w jobId scene) \<noteq> None \<longleftrightarrow>
     scene_narration scene \<noteq> [] \<and>
     w_generateSpeech w (scene_narration scene) jobId (audioAssetId scene) = None"
  by (auto simp: audio_promise_def split: option.splits)

lemma pexels_chain_rejects:
  "first_rejection [pexels_chain w jobId scene query] \<noteq> None \<longleftrightarrow>
     (case searchPexelsVideo (w_pexelsApiKey w) (w_pexelsSearch w) query
             (Some (scene_duration scene)) of
        Inl e \<Rightarrow> True
      | Inr video \<Rightarrow> w_downloadVideo w (pv_url video) jobId (visualAssetId scene) = None)"
  by (auto simp: pexels_chain_def split: sum.splits option.splits)

lemma visual_promise_rejects:
  "first_rejection (visual_promise w jobId scene) \<noteq> None \<longleftrightarrow>
     (if scene_visualType scene = ''image'' \<and> truthy_str (scene_imagePrompt scene) then
        w_generateImage w (str_default (scene_imagePrompt scene) []) jobId (visualAssetId scene)
          = None \<and>
        first_rejection [pexels_chain w jobId scene
          (str_or (scene_searchQuery scene) (scene_visualDescription scene))] \<noteq> None
      else if scene_visualType scene = ''video'' \<and> truthy_str (scene_searchQuery scene) then
        first_rejection [pexels_chain w jobId scene (str_default (scene_searchQuery scene) [])]
          \<noteq> None
      else False)"
  by (auto simp: visual_promise_def split: option.splits)


text \<open>
  Claim C1 as it is written lets the orchestration complete whatever a single slot
  does. With a speech synthesis that fails, \<open>Promise.all\<close> rejects, the
  orchestration throws that failure and no EDL is built.
\<close>

theorem C1_counterexample:
  "orchestrateVideoGeneration (ex_world image_ok (\<lambda>q. Some ex_results) (\<lambda>t j a. None)) ex_request
     = Inl SpeechFailed \<and>
   orchestrated_edl (ex_world image_ok (\<lambda>q. Some ex_results) (\<lambda>t j a. None)) ex_request = None"
  by (simp add: orchestrateVideoGeneration_def orchestrated_edl_def ex_world_def ex_request_def
      ex_script_def ex_scene_def ex_video_scene_def image_ok_def str_or_def num_or_def
      promise_all_def visual_promise_def audio_promise_def truthy_str_def str_default_def
      pexels_chain_def searchPexelsVideo_def num_default_def ex_results_def ex_video_def
      ex_file_def video_result_def hdFile_def visualAssetId_def audioAssetId_def
      pexels_asset_def Let_def)


text \<open>
  Claim C1, amended: once the script is generated, the rejection of any promise
  issued for a scene (an image generation whose stock-footage fallback fails as
  well, a stock-footage search or download that fails for a scene of type video, a
  speech synthesis that fails) makes \<open>orchestrateVideoGeneration\<close> throw before
  \<open>buildEDL\<close>: no EDL is built. A failed image generation whose fallback succeeds
  is no rejection. When no promise rejects, the EDL is built from the assets that
  the promises wrote. The lemmas \<open>audio_promise_rejects\<close>, \<open>visual_promise_rejects\<close>
  and \<open>pexels_chain_rejects\<close> say when a promise rejects.
\<close>

theorem C1_slot_failure_aborts:
  assumes "w_generateScript w (req_topic r) (num_or (req_targetDuration r) 120) = Some script"
    and "jobId = str_or (req_jobId r) (w_uuid w)"
    and "opts = (case req_options r of Some x \<Rightarrow> x | None \<Rightarrow> no_options)"
  shows "((\<exists>scene \<in> set (script_scenes script). slot_rejects w jobId scene) \<longrightarrow>
            isl (orchestrateVideoGeneration w r) \<and> orchestrated_edl w r = None) \<and>
         ((\<forall>scene \<in> set (script_scenes script). \<not> slot_rejects w jobId scene) \<longrightarrow>
            orchestrated_edl w r =
              Some (buildEDL (w_now w) script
                      (written (assetPromises w jobId (script_scenes script)) Map.empty) opts))"
proof -
  let ?ps = "assetPromises w jobId (script_scenes script)"
  have fr: "first_rejection ?ps = None \<longleftrightarrow>
      (\<forall>scene \<in> set (script_scenes script). \<not> slot_rejects w jobId scene)"
    by (simp add: first_rejection_assetPromises list_all_iff)
  have a: "(\<exists>scene \<in> set (script_scenes script). slot_rejects w jobId scene) \<longrightarrow>
            isl (orchestrateVideoGeneration w r) \<and> orchestrated_edl w r = None"
  proof
    assume "\<exists>scene \<in> set (script_scenes script). slot_rejects w jobId scene"
    then obtain e where "first_rejection ?ps = Some e" using fr by auto
    then show "isl (orchestrateVideoGeneration w r) \<and> orchestrated_edl w r = None"
      using assms
      by (simp add: orchestrateVideoGeneration_def orchestrated_edl_def promise_all_def Let_def)
  qed
  have b: "(\<forall>scene \<in> set (script_scenes script). \<not> slot_rejects w jobId scene) \<longrightarrow>
            orchestrated_edl w r = Some (buildEDL (w_now w) script (written ?ps Map.empty) opts)"
  proof
    assume "\<forall>scene \<in> set (script_scenes script). \<not> slot_rejects w jobId scene"
    then have "first_rejection ?ps = None" using fr by simp
    then show "orchestrated_edl w r = Some (buildEDL (w_now w) script (written ?ps Map.empty) opts)"
      using assms by (simp add: orchestrated_edl_def promise_all_def Let_def)
  qed
  show ?thesis using a b by blast
qed


lemmas world_defs = ex_world_def ex_request_def ex_script_def ex_scene_def ex_video_scene_def
  image_ok_def image_fails_def speech_ok_def speech_fails_def search_ok_def search_empty_def
  ex_two_scenes_def
lemmas slot_defs = slot_rejects_def visual_promise_def audio_promise_def pexels_chain_def
  searchPexelsVideo_def video_result_def hdFile_def pexels_asset_def truthy_str_def
  str_default_def num_default_def str_or_def num_or_def visualAssetId_def audioAssetId_def
  ex_results_def ex_video_def ex_file_def

lemma ex_world_script:
  "w_generateScript (ex_world i s p) (req_topic ex_request)
     (num_or (req_targetDuration ex_request) 120) = Some ex_two_scenes"
  "str_or (req_jobId ex_request) (w_uuid (ex_world i s p)) = ''job-1''"
  "(case req_options ex_request of Some x \<Rightarrow> x | None \<Rightarrow> no_options) = no_options"
  "script_scenes ex_two_scenes = [ex_scene ''s1'' 10, ex_video_scene ''s2'' 6]"
  by (simp_all add: ex_world_def ex_request_def ex_two_scenes_def ex_script_def str_or_def)

lemma ex_speech_fails:
  "slot_rejects (ex_world image_ok search_ok speech_fails) ''job-1'' (ex_scene ''s1'' 10)"
  by (simp add: world_defs slot_defs first_rejection_append)

lemma ex_video_search_fails:
  "slot_rejects (ex_world image_ok search_empty speech_ok) ''job-1'' (ex_video_scene ''s2'' 6)"
  by (simp add: world_defs slot_defs first_rejection_append)

lemma ex_fallback_fails:
  "slot_rejects (ex_world image_fails search_empty speech_ok) ''job-1'' (ex_scene ''s1'' 10)"
  by (simp add: world_defs slot_defs first_rejection_append)

lemma ex_fallback_succeeds:
  "\<not> slot_rejects (ex_world image_fails search_ok speech_ok) ''job-1'' (ex_scene ''s1'' 10)"
  "\<not> slot_rejects (ex_world image_fails search_ok speech_ok) ''job-1'' (ex_video_scene ''s2'' 6)"
  by (simp_all add: world_defs slot_defs first_rejection_append)

lemma ex_fallback_assets:
  "written (assetPromises (ex_world image_fails search_ok speech_ok) ''job-1''
      [ex_scene ''s1'' 10, ex_video_scene ''s2'' 6]) Map.empty =
   [''visual_s1'' \<mapsto> pexels_asset ''gs://bucket/visual_s1.mp4'' ''a view'',
    ''audio_s1'' \<mapsto> \<lparr>asset_type = ''generated-audio'', asset_source = ''gs://bucket/audio_s1.mp3'',
        asset_duration = Some 4, asset_prompt = None, asset_searchQuery = None\<rparr>,
    ''visual_s2'' \<mapsto> pexels_asset ''gs://bucket/visual_s2.mp4'' ''ocean'',
    ''audio_s2'' \<mapsto> \<lparr>asset_type = ''generated-audio'', asset_source = ''gs://bucket/audio_s2.mp3'',
        asset_duration = Some 4, asset_prompt = None, asset_searchQuery = None\<rparr>]"
  by (simp add: world_defs visual_promise_def audio_promise_def pexels_chain_def
  searchPexelsVideo_def video_result_def hdFile_def truthy_str_def
  str_default_def num_default_def str_or_def num_or_def visualAssetId_def audioAssetId_def
  ex_results_def ex_video_def ex_file_def)

theorem C1_witness:
  "isl (orchestrateVideoGeneration (ex_world image_ok search_ok speech_fails) ex_request) \<and>
   orchestrated_edl (ex_world image_ok search_ok speech_fails) ex_request = None \<and>
   isl (orchestrateVideoGeneration (ex_world image_ok search_empty speech_ok) ex_request) \<and>
   orchestrated_edl (ex_world image_ok search_empty speech_ok) ex_request = None \<and>
   isl (orchestrateVideoGeneration (ex_world image_fails search_empty speech_ok) ex_request) \<and>
   orchestrated_edl (ex_world image_fails search_empty speech_ok) ex_request = None \<and>
   orchestrated_edl (ex_world image_fails search_ok speech_ok) ex_request =
     Some (buildEDL ex_now ex_two_scenes
       [''visual_s1'' \<mapsto> pexels_asset ''gs://bucket/visual_s1.mp4'' ''a view'',
        ''audio_s1'' \<mapsto> \<lparr>asset_type = ''generated-audio'',
            asset_source = ''gs://bucket/audio_s1.mp3'',
            asset_duration = Some 4, asset_prompt = None, asset_searchQuery = None\<rparr>,
        ''visual_s2'' \<mapsto> pexels_asset ''gs://bucket/visual_s2.mp4'' ''ocean'',
        ''audio_s2'' \<mapsto> \<lparr>asset_type = ''generated-audio'',
            asset_source = ''gs://bucket/audio_s2.mp3'',
            asset_duration = Some 4, asset_prompt = None, asset_searchQuery = None\<rparr>]
       no_options)"
proof -
  have 1: "isl (orchestrateVideoGeneration (ex_world image_ok search_ok speech_fails) ex_request) \<and>
      orchestrated_edl (ex_world image_ok search_ok speech_fails) ex_request = None"
    using C1_slot_failure_aborts [of "ex_world image_ok search_ok speech_fails" ex_request
        ex_two_scenes "''job-1''" no_options] ex_speech_fails
    by (simp add: ex_world_script)
  have 2: "isl (orchestrateVideoGeneration (ex_world image_ok search_empty speech_ok) ex_request) \<and>
      orchestrated_edl (ex_world image_ok search_empty speech_ok) ex_request = None"
    using C1_slot_failure_aborts [of "ex_world image_ok search_empty speech_ok" ex_request
        ex_two_scenes "''job-1''" no_options] ex_video_search_fails
    by (simp add: ex_world_script)
  have 3: "isl (orchestrateVideoGeneration (ex_world image_fails search_empty speech_ok) ex_request) \<and>
      orchestrated_edl (ex_world image_fails search_empty speech_ok) ex_request = None"
    using C1_slot_failure_aborts [of "ex_world image_fails search_empty speech_ok" ex_request
        ex_two_scenes "''job-1''" no_options] ex_fallback_fails
    by (simp add: ex_world_script)
  have 4: "orchestrated_edl (ex_world image_fails search_ok speech_ok) ex_request =
      Some (buildEDL (w_now (ex_world image_fails search_ok speech_ok)) ex_two_scenes
        (written (assetPromises (ex_world image_fails search_ok speech_ok) ''job-1''
           (script_scenes ex_two_scenes)) Map.empty) no_options)"
    using C1_slot_failure_aborts [of "ex_world image_fails search_ok speech_ok" ex_request
        ex_two_scenes "''job-1''" no_options] ex_fallback_succeeds
    by (simp add: ex_world_script)
  have now: "w_now (ex_world image_fails search_ok speech_ok) = ex_now"
    by (simp add: ex_world_def)
  have 5: "orchestrated_edl (ex_world image_fails search_ok speech_ok) ex_request =
      Some (buildEDL ex_now ex_two_scenes
        (written (assetPromises (ex_world image_fails search_ok speech_ok) ''job-1''
           [ex_scene ''s1'' 10, ex_video_scene ''s2'' 6]) Map.empty) no_options)"
    using 4 by (simp only: now ex_world_script(4))
  show ?thesis
    using 1 2 3 5 unfolding ex_fallback_assets by blast
qed


end
